theory Spec2Isabelle
  imports Main "HOL-Library.Word"
begin

unbundle bit_operations_syntax

section \<open>Values, errors and the logging channel\<close>

text \<open>
  The metadata documents of \<^verbatim>\<open>cosalib/build.py\<close> are what Python's \<^verbatim>\<open>json\<close> module loads:
  \<^verbatim>\<open>None\<close>, booleans, integers, strings, lists and dicts with string keys. A dict keeps
  its insertion order, so it is an association list whose keys are distinct. Floats are
  left out. \<open>JNull\<close> is Python's \<^verbatim>\<open>None\<close>, also where a method returns \<^verbatim>\<open>None\<close>.
  File contents are byte strings; \<open>char\<close> is a byte.
\<close>

type_synonym bytes = string

datatype json =
    JNull
  | JBool bool
  | JInt int
  | JStr string
  | JArr "json list"
  | JObj "(string \<times> json) list"

text \<open>
  Every \<^verbatim>\<open>raise\<close> of the source and every exception of the library calls it makes is a
  value. \<open>Exception msg cause\<close> is the two-argument \<^verbatim>\<open>Exception(msg, e)\<close> of \<^verbatim>\<open>__del__\<close>.
\<close>

datatype error =
    BuildError string
  | KeyError string
  | TypeError string
  | AttributeError string
  | NotImplementedError string
  | FileNotFoundError string
  | FileExistsError string
  | IsADirectoryError string
  | NotADirectoryError string
  | JSONDecodeError string
  | RecursionError
  | Exception string error

text \<open>
  A call \<^verbatim>\<open>log.warning(fmt, *args)\<close> is recorded as its level, its format string and its
  arguments; the rendering of the message is the logging module's.
\<close>

datatype level = DEBUG | INFO | WARNING

datatype logarg = AStr string | AJson json | AErr error

datatype log_record = LogRec level string "logarg list"

section \<open>Python's string conversions\<close>

text \<open>
  \<^verbatim>\<open>str(x)\<close> and the f-string \<^verbatim>\<open>f'{x}'\<close> of a loaded value: a string is itself, anything
  else is its \<^verbatim>\<open>repr\<close>. The \<^verbatim>\<open>repr\<close> of a string is given for ASCII text.
\<close>

definition digit_char :: "nat \<Rightarrow> char" where
  "digit_char n = ''0123456789abcdef'' ! (n mod 16)"

function dec_nat :: "nat \<Rightarrow> string" where
  "dec_nat n = (if n < 10 then [digit_char n] else dec_nat (n div 10) @ [digit_char (n mod 10)])"
  by pat_completeness auto
termination
  by (relation "measure id") auto

declare dec_nat.simps [simp del]

definition dec_int :: "int \<Rightarrow> string" where
  "dec_int i = (if i < 0 then CHR ''-'' # dec_nat (nat (- i)) else dec_nat (nat i))"

definition repr_char :: "char \<Rightarrow> char \<Rightarrow> string" where
  "repr_char q c =
     (if c = q \<or> c = CHR 0x5C then [CHR 0x5C, c]
      else if c = CHR 0x0A then [CHR 0x5C, CHR ''n'']
      else if c = CHR 0x0D then [CHR 0x5C, CHR ''r'']
      else if c = CHR 0x09 then [CHR 0x5C, CHR ''t'']
      else if of_char c < (32 :: nat) \<or> of_char c = (127 :: nat)
        then [CHR 0x5C, CHR ''x'', digit_char (of_char c div 16), digit_char (of_char c mod 16)]
      else [c])"

definition repr_str :: "string \<Rightarrow> string" where
  "repr_str s =
     (let q = (if CHR 0x27 \<in> set s \<and> CHR 0x22 \<notin> set s then CHR 0x22 else CHR 0x27)
      in q # concat (map (repr_char q) s) @ [q])"

fun join :: "string \<Rightarrow> string list \<Rightarrow> string" where
  "join sep [] = []"
| "join sep [x] = x"
| "join sep (x # y # ys) = x @ sep @ join sep (y # ys)"

fun py_repr :: "json \<Rightarrow> string"
  and repr_items :: "json list \<Rightarrow> string list"
  and repr_pairs :: "(string \<times> json) list \<Rightarrow> string list" where
  "py_repr JNull = ''None''"
| "py_repr (JBool b) = (if b then ''True'' else ''False'')"
| "py_repr (JInt i) = dec_int i"
| "py_repr (JStr s) = repr_str s"
| "py_repr (JArr xs) = ''['' @ join '', '' (repr_items xs) @ '']''"
| "py_repr (JObj kvs) = ''{'' @ join '', '' (repr_pairs kvs) @ ''}''"
| "repr_items [] = []"
| "repr_items (x # xs) = py_repr x # repr_items xs"
| "repr_pairs [] = []"
| "repr_pairs ((k, v) # kvs) = (repr_str k @ '': '' @ py_repr v) # repr_pairs kvs"

definition py_str :: "json \<Rightarrow> string" where
  "py_str v = (case v of JStr s \<Rightarrow> s | _ \<Rightarrow> py_repr v)"

section \<open>Paths\<close>

text \<open>\<^verbatim>\<open>os.path.dirname\<close> and the two-argument \<^verbatim>\<open>os.path.join\<close> of \<^verbatim>\<open>posixpath\<close>.\<close>

definition dirname :: "string \<Rightarrow> string" where
  "dirname p =
     (let head = rev (dropWhile (\<lambda>c. c \<noteq> CHR ''/'') (rev p))
      in if head = [] \<or> filter (\<lambda>c. c \<noteq> CHR ''/'') head = [] then head
         else rev (dropWhile (\<lambda>c. c = CHR ''/'') (rev head)))"

definition path_join :: "string \<Rightarrow> string \<Rightarrow> string" where
  "path_join a b =
     (if take 1 b = ''/'' then b
      else if a = [] \<or> last a = CHR ''/'' then a @ b
      else a @ ''/'' @ b)"

section \<open>Python dicts and subscripts on loaded values\<close>

text \<open>
  \<^verbatim>\<open>d[k] = v\<close> keeps the position of a key that is present and appends a new one;
  \<^verbatim>\<open>d.update(u)\<close> does so for every item of \<open>u\<close> in order.
\<close>

fun dict_set :: "(string \<times> 'v) list \<Rightarrow> string \<Rightarrow> 'v \<Rightarrow> (string \<times> 'v) list" where
  "dict_set [] k v = [(k, v)]"
| "dict_set ((k', v') # d) k v =
     (if k' = k then (k', v) # d else (k', v') # dict_set d k v)"

fun dict_update :: "(string \<times> 'v) list \<Rightarrow> (string \<times> 'v) list \<Rightarrow> (string \<times> 'v) list" where
  "dict_update d [] = d"
| "dict_update d ((k, v) # u) = dict_update (dict_set d k v) u"

text \<open>\<^verbatim>\<open>obj[key]\<close> with a string key: only a dict can answer, and a missing key is a KeyError.\<close>

definition subscript :: "json \<Rightarrow> string \<Rightarrow> error + json" where
  "subscript obj key =
     (case obj of
        JObj d \<Rightarrow> (case map_of d key of Some v \<Rightarrow> Inr v | None \<Rightarrow> Inl (KeyError key))
      | JArr xs \<Rightarrow> Inl (TypeError ''list indices must be integers or slices, not str'')
      | JStr s \<Rightarrow> Inl (TypeError ''string indices must be integers'')
      | _ \<Rightarrow> Inl (TypeError ''object is not subscriptable''))"

text \<open>\<^verbatim>\<open>obj.get(key, default)\<close> and \<^verbatim>\<open>obj.update(u)\<close>: methods of a dict only.\<close>

definition dict_get :: "json \<Rightarrow> string \<Rightarrow> json \<Rightarrow> error + json" where
  "dict_get obj key dflt =
     (case obj of
        JObj d \<Rightarrow> (case map_of d key of Some v \<Rightarrow> Inr v | None \<Rightarrow> Inr dflt)
      | _ \<Rightarrow> Inl (AttributeError ''get''))"

definition update_method :: "json \<Rightarrow> (string \<times> json) list \<Rightarrow> error + json" where
  "update_method obj u =
     (case obj of
        JObj d \<Rightarrow> Inr (JObj (dict_update d u))
      | _ \<Rightarrow> Inl (AttributeError ''update''))"

definition upper :: "string \<Rightarrow> string" where
  "upper s = map (\<lambda>c. if (97 :: nat) \<le> of_char c \<and> of_char c \<le> (122 :: nat) then char_of (of_char c - (32 :: nat)) else c) s"

section \<open>The world outside the handle\<close>

text \<open>
  The file system maps a path, taken literally, to a regular file (its bytes and its
  permission bits) or to a directory. The process environment and the log are part of
  the world too; \<open>unraisable\<close> is what \<^verbatim>\<open>sys.unraisablehook\<close> has been given to report.
  \<open>hook_calls\<close> is a ghost counter: it counts the calls of the
  artifact-production hook \<^verbatim>\<open>_build_artifacts\<close> and nothing reads it.
\<close>

datatype node = File bytes nat | Dir

record world =
  files :: "string \<rightharpoonup> node"
  environ :: "string \<rightharpoonup> string"
  logs :: "log_record list"
  unraisable :: "error list"
  hook_calls :: nat

text \<open>
  What the source takes from outside this repository's two files: Python's \<^verbatim>\<open>json\<close>,
  \<^verbatim>\<open>hashlib\<close>, \<^verbatim>\<open>tempfile\<close> and \<^verbatim>\<open>os\<close>, the interpreter's recursion limit, and the
  \<^verbatim>\<open>Builds\<close> index and \<^verbatim>\<open>get_basearch\<close> of \<^verbatim>\<open>cosalib\<close>. They are parameters.
  \<^item> \<open>json_dumps\<close> is the text \<^verbatim>\<open>json.dump(data, f, indent=4)\<close> writes, \<open>json_loads\<close> is
    \<^verbatim>\<open>json.load\<close> (\<open>None\<close> where it raises JSONDecodeError);
  \<^item> \<open>sha256\<close> is the digest of a message, 256 bits;
  \<^item> \<open>mkdtemp_name\<close> and \<open>tempfile_name\<close> are the names \<^verbatim>\<open>tempfile\<close> draws;
  \<^item> \<open>written_through\<close> is how many bytes of a text that does not fit the buffer of a
    file the buffering layers of \<^verbatim>\<open>io\<close> pass on to the file before it is closed;
  \<^item> \<open>builds_has\<close>, \<open>builds_get_latest\<close> and \<open>builds_get_build_dir\<close> are the methods of
    \<^verbatim>\<open>Builds(workdir)\<close>, with the work directory as first argument.
\<close>

record env =
  json_dumps :: "json \<Rightarrow> bytes"
  json_loads :: "bytes \<Rightarrow> json option"
  sha256 :: "bytes \<Rightarrow> 256 word"
  BASEARCH :: string
  getcwd :: string
  builds_has :: "string \<Rightarrow> string \<Rightarrow> bool"
  builds_get_latest :: "string \<Rightarrow> string"
  builds_get_build_dir :: "string \<Rightarrow> string \<Rightarrow> string \<Rightarrow> string"
  mkdtemp_name :: string
  tempfile_name :: string
  written_through :: "bytes \<Rightarrow> nat"
  dir_st_size :: nat
  recursion_limit :: nat

subsection \<open>Files\<close>

definition os_path_exists :: "world \<Rightarrow> string \<Rightarrow> bool" where
  "os_path_exists w p = (case files w p of None \<Rightarrow> False | Some n \<Rightarrow> True)"

definition os_stat_st_size :: "env \<Rightarrow> world \<Rightarrow> string \<Rightarrow> error + nat" where
  "os_stat_st_size E w p =
     (case files w p of
        None \<Rightarrow> Inl (FileNotFoundError p)
      | Some (File bs m) \<Rightarrow> Inr (length bs)
      | Some Dir \<Rightarrow> Inr (dir_st_size E))"

text \<open>
  Modelled from the spec: \<^verbatim>\<open>load_json\<close> of \<^verbatim>\<open>cosalib.cmdlib\<close>, which \<^verbatim>\<open>build.py\<close> imports and
  the source files do not hold. A document is the parsed JSON of the file at the path; a
  missing file and a file that is not valid JSON are errors.
\<close>

definition load_json :: "env \<Rightarrow> string \<Rightarrow> world \<Rightarrow> error + json" where
  "load_json E path w =
     (case files w path of
        None \<Rightarrow> Inl (FileNotFoundError path)
      | Some Dir \<Rightarrow> Inl (IsADirectoryError path)
      | Some (File bs m) \<Rightarrow>
          (case json_loads E bs of
             None \<Rightarrow> Inl (JSONDecodeError path)
           | Some j \<Rightarrow> Inr j))"

text \<open>\<^verbatim>\<open>tempfile.mkdtemp\<close>: a new directory under the name drawn; a taken name is an error.\<close>

definition mkdtemp :: "env \<Rightarrow> world \<Rightarrow> error + (string \<times> world)" where
  "mkdtemp E w =
     (if os_path_exists w (mkdtemp_name E) then Inl (FileExistsError (mkdtemp_name E))
      else Inr (mkdtemp_name E, w\<lparr>files := (files w)(mkdtemp_name E \<mapsto> Dir)\<rparr>))"



subsection \<open>Buffered text files\<close>

text \<open>
  A file opened in mode \<^verbatim>\<open>'w'\<close> with the default buffering: \<open>f_name\<close> is its \<^verbatim>\<open>name\<close>
  attribute, \<open>f_loc\<close> the path under which the file the descriptor refers to is found
  now, \<open>f_pending\<close> the text written and still in the buffer. The buffer holds
  \<^verbatim>\<open>io.DEFAULT_BUFFER_SIZE\<close> bytes: text that fits is kept in the buffer; of text that
  does not, the first \<open>written_through\<close> bytes are passed on to the file and the rest is
  kept. \<^verbatim>\<open>flush\<close> and \<^verbatim>\<open>close\<close> write the buffer out; nothing else does. \<open>f_write\<close> is
  all the writes of one \<^verbatim>\<open>json.dump\<close>, with the whole text.
\<close>

record pyfile =
  f_name :: string
  f_loc :: string
  f_pending :: bytes

definition DEFAULT_BUFFER_SIZE :: nat where
  "DEFAULT_BUFFER_SIZE = 8192"

text \<open>The permission bits \<^verbatim>\<open>0o600\<close> and \<^verbatim>\<open>0o644\<close>, in decimal.\<close>

definition mode_0o600 :: nat where
  "mode_0o600 = 6 * 64"

definition mode_0o644 :: nat where
  "mode_0o644 = 6 * 64 + 4 * 8 + 4"

definition append_file :: "string \<Rightarrow> bytes \<Rightarrow> world \<Rightarrow> world" where
  "append_file loc bs w =
     (case files w loc of
        Some (File old m) \<Rightarrow> w\<lparr>files := (files w)(loc \<mapsto> File (old @ bs) m)\<rparr>
      | _ \<Rightarrow> w)"

definition f_write :: "env \<Rightarrow> pyfile \<Rightarrow> bytes \<Rightarrow> world \<Rightarrow> pyfile \<times> world" where
  "f_write E f bs w =
     (let text = f_pending f @ bs in
      if length text \<le> DEFAULT_BUFFER_SIZE
      then (f\<lparr>f_pending := text\<rparr>, w)
      else (f\<lparr>f_pending := drop (written_through E text) text\<rparr>,
            append_file (f_loc f) (take (written_through E text) text) w))"

definition f_close :: "pyfile \<Rightarrow> world \<Rightarrow> world" where
  "f_close f w = append_file (f_loc f) (f_pending f) w"

text \<open>
  \<^verbatim>\<open>tempfile.NamedTemporaryFile(mode='w', dir=dn, delete=False)\<close>: an empty file of mode
  \<^verbatim>\<open>0o600\<close> under the name drawn, in \<open>dn\<close>, which must be a directory (the empty \<open>dn\<close> is
  the current directory).
\<close>

definition NamedTemporaryFile :: "env \<Rightarrow> string \<Rightarrow> world \<Rightarrow> error + (pyfile \<times> world)" where
  "NamedTemporaryFile E dn w =
     (let name = path_join dn (tempfile_name E) in
      if dn = [] \<or> files w dn = Some Dir then
        (if os_path_exists w name then Inl (FileExistsError name)
         else Inr (\<lparr>f_name = name, f_loc = name, f_pending = []\<rparr>,
                   w\<lparr>files := (files w)(name \<mapsto> File [] mode_0o600)\<rparr>))
      else if os_path_exists w dn then Inl (NotADirectoryError name)
      else Inl (FileNotFoundError name))"

text \<open>\<^verbatim>\<open>os.fchmod\<close> sets the permission bits of the file the descriptor refers to.\<close>

definition os_fchmod :: "pyfile \<Rightarrow> nat \<Rightarrow> world \<Rightarrow> world" where
  "os_fchmod f mode w =
     (case files w (f_loc f) of
        Some (File bs m) \<Rightarrow> w\<lparr>files := (files w)(f_loc f \<mapsto> File bs mode)\<rparr>
      | _ \<Rightarrow> w)"

text \<open>
  \<^verbatim>\<open>os.rename(src, dst)\<close> of a regular file: \<open>dst\<close> is replaced in one step and \<open>src\<close> is
  gone. An open descriptor refers to the file, not to its name, so it follows the file.
\<close>

definition os_rename :: "string \<Rightarrow> string \<Rightarrow> world \<Rightarrow> error + world" where
  "os_rename src dst w =
     (case files w src of
        None \<Rightarrow> Inl (FileNotFoundError src)
      | Some Dir \<Rightarrow> Inl (IsADirectoryError src)
      | Some (File bs m) \<Rightarrow>
          (if src = dst then Inr w
           else case files w dst of
             Some Dir \<Rightarrow> Inl (IsADirectoryError dst)
           | _ \<Rightarrow> Inr (w\<lparr>files := (files w)(dst \<mapsto> File bs m, src := None)\<rparr>)))"

definition relocate :: "string \<Rightarrow> string \<Rightarrow> pyfile \<Rightarrow> pyfile" where
  "relocate src dst f = (if f_loc f = src then f\<lparr>f_loc := dst\<rparr> else f)"

section \<open>\<^verbatim>\<open>cmdlib.py\<close>\<close>

text \<open>
  \<^verbatim>\<open>write_json(path, data)\<close>, statement by statement. The file object \<open>f\<close> is never
  flushed or closed by the function; it is closed when the function returns and the last
  reference to it goes. \<open>write_json_trace\<close> gives the world before the call and after
  each statement, the last one after that implicit close, and what the call raises.
\<close>

definition write_json_trace :: "env \<Rightarrow> string \<Rightarrow> json \<Rightarrow> world \<Rightarrow> world list \<times> (error + unit)" where
  "write_json_trace E path data w =
     (let dn = dirname path in
      case NamedTemporaryFile E dn w of
        Inl e \<Rightarrow> ([w], Inl e)
      | Inr (f, w1) \<Rightarrow>
          (let (f2, w2) = f_write E f (json_dumps E data) w1;
               w3 = os_fchmod f2 mode_0o644 w2
           in case os_rename (f_name f2) path w3 of
                Inl e \<Rightarrow> ([w, w1, w2, w3, f_close f2 w3], Inl e)
              | Inr w4 \<Rightarrow>
                  ([w, w1, w2, w3, w4, f_close (relocate (f_name f2) path f2) w4], Inr ())))"

definition write_json :: "env \<Rightarrow> string \<Rightarrow> json \<Rightarrow> world \<Rightarrow> (error + unit) \<times> world" where
  "write_json E path data w =
     (case write_json_trace E path data w of (ws, r) \<Rightarrow> (r, last ws))"

text \<open>
  \<^verbatim>\<open>sha256sum_file(filename)\<close>. A hash object is the message it has been fed so far
  (\<^verbatim>\<open>update\<close> appends); \<open>read_loop\<close> is the loop over \<^verbatim>\<open>iter(lambda: f.read(n), b'')\<close>:
  \<open>rest\<close> is what the unbuffered file has left to read, \<open>h\<close> the hash object.
\<close>

function read_loop :: "nat \<Rightarrow> bytes \<Rightarrow> bytes \<Rightarrow> bytes" where
  "read_loop n rest h =
     (if take n rest = [] then h else read_loop n (drop n rest) (h @ take n rest))"
  by pat_completeness auto
termination
  by (relation "measure (\<lambda>(n, rest, h). length rest)") auto

declare read_loop.simps [simp del]

definition hexdigest :: "256 word \<Rightarrow> string" where
  "hexdigest d = map (\<lambda>i. digit_char (unat (drop_bit (4 * (63 - i)) d AND 15))) [0..<64]"

definition sha256sum_file :: "env \<Rightarrow> string \<Rightarrow> world \<Rightarrow> error + string" where
  "sha256sum_file E filename w =
     (case files w filename of
        None \<Rightarrow> Inl (FileNotFoundError filename)
      | Some Dir \<Rightarrow> Inl (IsADirectoryError filename)
      | Some (File bs m) \<Rightarrow> Inr (hexdigest (sha256 E (read_loop (128 * 1024) bs []))))"

section \<open>\<^verbatim>\<open>cosalib/build.py\<close>: the class \<^verbatim>\<open>_Build\<close>\<close>

text \<open>
  The attributes of a handle. \<open>self_build_json\<close> is the dict \<^verbatim>\<open>_build_json\<close> of the four
  slots \<^verbatim>\<open>commit\<close>, \<^verbatim>\<open>config\<close>, \<^verbatim>\<open>image\<close>, \<^verbatim>\<open>meta\<close>, with \<open>JNull\<close> for \<^verbatim>\<open>None\<close>.
  \<open>self_platform\<close> is the attribute \<^verbatim>\<open>platform\<close>, which only a concrete build kind
  defines (\<open>None\<close>: the class has none).
\<close>

record build =
  self_build_dir :: string
  self_build_json :: "string \<Rightarrow> json"
  self_found_files :: "(string \<times> json) list"
  self_workdir :: "string option"
  self_tmpdir :: string
  self_image_name :: "string option"
  self_platform :: "string option"

text \<open>
  A method runs on the handle and the world, and returns a value or raises; what it has
  changed before raising stays changed.
\<close>

type_synonym state = "build \<times> world"

type_synonym 'a M = "state \<Rightarrow> (error + 'a) \<times> state"

definition retM :: "'a \<Rightarrow> 'a M" where
  "retM x = (\<lambda>s. (Inr x, s))"

definition raiseM :: "error \<Rightarrow> 'a M" where
  "raiseM e = (\<lambda>s. (Inl e, s))"

definition bindM :: "'a M \<Rightarrow> ('a \<Rightarrow> 'b M) \<Rightarrow> 'b M" where
  "bindM m f = (\<lambda>s. case m s of (Inl e, s') \<Rightarrow> (Inl e, s') | (Inr x, s') \<Rightarrow> f x s')"

definition liftM :: "error + 'a \<Rightarrow> 'a M" where
  "liftM r = (\<lambda>s. (r, s))"

definition logM :: "log_record \<Rightarrow> unit M" where
  "logM r = (\<lambda>(b, w). (Inr (), (b, w\<lparr>logs := logs w @ [r]\<rparr>)))"

subsection \<open>The documents\<close>

definition build_dir :: "build \<Rightarrow> string" where
  "build_dir b = self_build_dir b"

definition dunder_file :: "build \<Rightarrow> string \<Rightarrow> error + string" where
  "dunder_file b var =
     (case map_of
        [(''commit'', build_dir b @ ''/commitmeta.json''),
         (''config'', build_dir b @ ''/coreos-assembler-config-git.json''),
         (''image'', ''/cosa/coreos-assembler-git.json''),
         (''meta'', build_dir b @ ''/meta.json'')] var of
        Some p \<Rightarrow> Inr p
      | None \<Rightarrow> Inl (KeyError var))"

definition dunder_get_json :: "env \<Rightarrow> string \<Rightarrow> json M" where
  "dunder_get_json E name =
     (\<lambda>(b, w). bindM (liftM (dunder_file b name)) (\<lambda>file_path.
        bindM (logM (LogRec DEBUG ''Reading in %s'' [AStr file_path])) (\<lambda>_.
          (\<lambda>(b', w'). (load_json E file_path w', (b', w'))))) (b, w))"

text \<open>
  The four properties have one body: load the slot if it is \<^verbatim>\<open>None\<close>, return the slot.
\<close>

definition cached_slot :: "env \<Rightarrow> string \<Rightarrow> json M" where
  "cached_slot E name =
     (\<lambda>(b, w).
        if self_build_json b name = JNull
        then bindM (dunder_get_json E name) (\<lambda>j.
               (\<lambda>(b', w'). (Inr j, (b'\<lparr>self_build_json := (self_build_json b')(name := j)\<rparr>, w')))) (b, w)
        else (Inr (self_build_json b name), (b, w)))"

definition commit :: "env \<Rightarrow> json M" where
  "commit E = cached_slot E ''commit''"

definition config :: "env \<Rightarrow> json M" where
  "config E = cached_slot E ''config''"

definition image_property :: "env \<Rightarrow> json M" where
  "image_property E = cached_slot E ''image''"

definition meta :: "env \<Rightarrow> json M" where
  "meta E = cached_slot E ''meta''"

definition refresh_meta :: "env \<Rightarrow> unit M" where
  "refresh_meta E =
     bindM (dunder_get_json E ''meta'') (\<lambda>j.
       (\<lambda>(b, w). (Inr (), (b\<lparr>self_build_json := (self_build_json b)(''meta'' := j)\<rparr>, w))))"

text \<open>
  \<^verbatim>\<open>get_obj(key)\<close> builds the dict of the four documents first, reading each property in
  turn, then looks the key up; the bare \<^verbatim>\<open>except\<close> turns the failed lookup into BuildError.
\<close>

definition get_obj :: "env \<Rightarrow> string \<Rightarrow> json M" where
  "get_obj E key =
     bindM (commit E) (\<lambda>c.
     bindM (config E) (\<lambda>cf.
     bindM (image_property E) (\<lambda>i.
     bindM (meta E) (\<lambda>m.
       case map_of [(''commit'', c), (''config'', cf), (''image'', i), (''meta'', m)] key of
         Some d \<Rightarrow> retM d
       | None \<Rightarrow>
           raiseM (BuildError (''invalid key '' @ key @
             '', valid keys are dict_keys(['commit', 'config', 'image', 'meta'])''))))))"

text \<open>\<^verbatim>\<open>get_meta_key(obj, key)\<close>: the \<^verbatim>\<open>try\<close> covers both statements and catches KeyError only.\<close>

definition get_meta_key :: "env \<Rightarrow> string \<Rightarrow> string \<Rightarrow> json M" where
  "get_meta_key E obj key =
     (\<lambda>s. case bindM (get_obj E obj) (\<lambda>data. liftM (subscript data key)) s of
        (Inl (KeyError k), s') \<Rightarrow>
          bindM (logM (LogRec WARNING ''lookup for key '%s' returned: %s''
                         [AStr key, AErr (KeyError k)]))
            (\<lambda>_. retM JNull) s'
      | r \<Rightarrow> r)"

text \<open>
  \<^verbatim>\<open>get_sub_obj(obj, key, sub)\<close>: \<open>obj\<close> is a string (\<open>JStr\<close>), which names a document, or
  a document. The method calls itself on the document it has resolved; the first argument
  bounds the depth of these calls, as the interpreter's recursion limit does.
\<close>

fun get_sub_obj_depth :: "nat \<Rightarrow> env \<Rightarrow> json \<Rightarrow> string \<Rightarrow> string \<Rightarrow> json M" where
  "get_sub_obj_depth 0 E obj key sub = raiseM RecursionError"
| "get_sub_obj_depth (Suc n) E (JStr name) key sub =
     bindM (get_obj E name) (\<lambda>obj. get_sub_obj_depth n E obj key sub)"
| "get_sub_obj_depth (Suc n) E obj key sub =
     (case (case subscript obj key of Inl e \<Rightarrow> Inl e | Inr v \<Rightarrow> subscript v sub) of
        Inl (KeyError k) \<Rightarrow> bindM (logM (LogRec WARNING (py_str obj) [])) (\<lambda>_. retM JNull)
      | Inl e \<Rightarrow> raiseM e
      | Inr v \<Rightarrow> retM v)"

definition get_sub_obj :: "env \<Rightarrow> json \<Rightarrow> string \<Rightarrow> string \<Rightarrow> json M" where
  "get_sub_obj E obj key sub = get_sub_obj_depth (recursion_limit E) E obj key sub"

subsection \<open>Derived accessors\<close>

definition build_id :: "env \<Rightarrow> json M" where
  "build_id E = get_meta_key E ''meta'' ''buildid''"

definition build_name :: "env \<Rightarrow> string M" where
  "build_name E = bindM (get_meta_key E ''meta'' ''name'') (\<lambda>v. retM (py_str v))"

definition summary :: "env \<Rightarrow> json M" where
  "summary E = get_meta_key E ''meta'' ''summary''"

definition ostree_commit :: "env \<Rightarrow> json M" where
  "ostree_commit E = bindM (meta E) (\<lambda>m. liftM (dict_get m ''ostree-commit'' JNull))"

definition ckey :: "string \<Rightarrow> string" where
  "ckey var = ''coreos-assembler.'' @ var"

definition basearch :: "env \<Rightarrow> json M" where
  "basearch E =
     bindM (meta E) (\<lambda>m.
       liftM (dict_get m (ckey ''coreos-assembler.basearch'') (JStr (BASEARCH E))))"

definition platform :: "string M" where
  "platform =
     (\<lambda>(b, w). case self_platform b of
        None \<Rightarrow> (Inl (AttributeError ''platform''), (b, w))
      | Some p \<Rightarrow> (Inr p, (b, w)))"

definition image_name_base :: "env \<Rightarrow> string M" where
  "image_name_base E =
     (\<lambda>(b, w). case self_image_name b of
        Some n \<Rightarrow> (Inr n, (b, w))
      | None \<Rightarrow>
          bindM (build_name E) (\<lambda>name.
          bindM (build_id E) (\<lambda>bid.
          bindM platform (\<lambda>p.
          bindM (basearch E) (\<lambda>arch.
            retM (name @ ''-'' @ py_str bid @ ''-'' @ p @ ''.'' @ py_str arch))))) (b, w))"

subsection \<open>Mutating and persisting \<^verbatim>\<open>meta\<close>\<close>

definition meta_append :: "(string \<times> json) list \<Rightarrow> unit M" where
  "meta_append update_dict =
     (\<lambda>(b, w). case update_method (self_build_json b ''meta'') update_dict of
        Inl e \<Rightarrow> (Inl e, (b, w))
      | Inr m \<Rightarrow> (Inr (), (b\<lparr>self_build_json := (self_build_json b)(''meta'' := m)\<rparr>, w)))"

definition meta_write :: "env \<Rightarrow> unit M" where
  "meta_write E =
     (\<lambda>(b, w). case dunder_file b ''meta'' of
        Inl e \<Rightarrow> (Inl e, (b, w))
      | Inr p \<Rightarrow>
          (case write_json E p (self_build_json b ''meta'') w of (r, w') \<Rightarrow> (r, (b, w'))))"

subsection \<open>Artifacts\<close>

definition image_name :: "build \<Rightarrow> error + string" where
  "image_name b =
     (case self_image_name b of
        None \<Rightarrow> Inl (NotImplementedError ''image naming is not implmented here'')
      | Some n \<Rightarrow> Inr n)"

definition image_name_setter :: "string \<Rightarrow> build \<Rightarrow> build" where
  "image_name_setter val b = b\<lparr>self_image_name := Some val\<rparr>"

definition image_path :: "build \<Rightarrow> error + string" where
  "image_path b =
     (case image_name b of
        Inl e \<Rightarrow> Inl e
      | Inr n \<Rightarrow> Inr (path_join (build_dir b) n))"

definition have_artifact :: "state \<Rightarrow> error + bool" where
  "have_artifact s =
     (case image_path (fst s) of
        Inl e \<Rightarrow> Inl e
      | Inr p \<Rightarrow> Inr (os_path_exists (snd s) p))"

text \<open>
  \<^verbatim>\<open>_build_artifacts\<close> is the hook a concrete build kind overrides; the class's own raises.
  \<open>call_hook\<close> runs a hook and counts the call in the ghost counter, whatever the hook
  does and whether or not it raises.
\<close>

definition underscore_build_artifacts :: "unit M" where
  "underscore_build_artifacts = raiseM (NotImplementedError ''_build_artifacts must be overriden'')"

definition call_hook :: "unit M \<Rightarrow> unit M" where
  "call_hook hook =
     (\<lambda>(b, w). case hook (b, w) of
        (r, (b', w')) \<Rightarrow> (r, (b', w'\<lparr>hook_calls := Suc (hook_calls w)\<rparr>)))"

definition build_artifacts :: "unit M \<Rightarrow> unit M" where
  "build_artifacts hook =
     bindM (logM (LogRec INFO ''Processing the build artifacts'' [])) (\<lambda>_.
     bindM (call_hook hook) (\<lambda>_.
     bindM (logM (LogRec INFO ''Finished building artifacts'' [])) (\<lambda>_.
       (\<lambda>(b, w). if length (self_found_files b) = 0
          then logM (LogRec WARNING ''There were no files found after building'' []) (b, w)
          else (Inr (), (b, w))))))"

definition ensure_built :: "unit M \<Rightarrow> unit M" where
  "ensure_built hook =
     (\<lambda>s. case have_artifact s of
        Inl e \<Rightarrow> (Inl e, s)
      | Inr True \<Rightarrow> (Inr (), s)
      | Inr False \<Rightarrow> build_artifacts hook s)"

text \<open>
  \<^verbatim>\<open>get_artifact_meta(fname=None)\<close>. The size is read first, from \<^verbatim>\<open>image_path\<close>;
  \<^verbatim>\<open>int('{}'.format(n))\<close> is \<open>n\<close>. The result is the dict the method returns.
\<close>

definition get_artifact_meta :: "env \<Rightarrow> string option \<Rightarrow> (string \<times> json) list M" where
  "get_artifact_meta E fname_arg =
     (\<lambda>(b, w).
        bindM (liftM (image_path b)) (\<lambda>ipath.
        bindM (liftM (os_stat_st_size E w ipath)) (\<lambda>fsize.
        bindM (liftM (case fname_arg of None \<Rightarrow> image_name b | Some n \<Rightarrow> Inr n)) (\<lambda>fname.
        bindM (logM (LogRec INFO ''Calculating metadata for %s'' [AStr fname])) (\<lambda>_.
        bindM (liftM (sha256sum_file E (path_join (build_dir b) fname) w)) (\<lambda>digest.
          retM [(''path'', JStr fname),
                (''sha256sum'', JStr digest),
                (''size'', JInt (int fsize))]))))) (b, w))"

subsection \<open>Construction and teardown\<close>

text \<open>
  The keyword arguments \<^verbatim>\<open>__init__\<close> reads: \<open>None\<close> is a keyword not given;
  \<^verbatim>\<open>workdir\<close> may be given as \<^verbatim>\<open>None\<close>. \<open>kw_platform\<close> is no keyword: it is the
  \<^verbatim>\<open>platform\<close> attribute of the class that is being constructed.
\<close>

record kwargs =
  kw_build :: "string option"
  kw_arch :: "string option"
  kw_workdir :: "string option option"
  kw_platform :: "string option"

text \<open>
  The check of one document in \<^verbatim>\<open>__init__\<close>. Its \<^verbatim>\<open>raise\<close> formats
  \<^verbatim>\<open>"%s %s" % self.__file(name)\<close> first, two places and one string: that is a TypeError,
  raised in place of the BuildError.
\<close>

definition check_loaded :: "json M \<Rightarrow> string \<Rightarrow> unit M" where
  "check_loaded prop name =
     bindM prop (\<lambda>d.
       if d = JNull
       then (\<lambda>(b, w). bindM (liftM (dunder_file b name)) (\<lambda>p.
               raiseM (TypeError ''not enough arguments for format string'')) (b, w))
       else retM ())"

definition set_environ :: "string \<Rightarrow> string \<Rightarrow> world \<Rightarrow> world" where
  "set_environ k v w = w\<lparr>environ := (environ w)(k \<mapsto> v)\<rparr>"

text \<open>
  The block of \<^verbatim>\<open>__init__\<close> that checks that the build and its metadata can be parsed,
  and the closing \<^verbatim>\<open>log.info\<close>, whose arguments read \<^verbatim>\<open>meta\<close> again.
\<close>

definition init_checks :: "env \<Rightarrow> unit M" where
  "init_checks E =
     bindM (check_loaded (commit E) ''commit'') (\<lambda>_.
     bindM (check_loaded (config E) ''config'') (\<lambda>_.
     bindM (check_loaded (image_property E) ''image'') (\<lambda>_.
     bindM (check_loaded (meta E) ''meta'') (\<lambda>_.
     bindM (summary E) (\<lambda>sm.
     bindM (build_name E) (\<lambda>nm.
     bindM (basearch E) (\<lambda>ba.
     bindM (build_id E) (\<lambda>bi.
       logM (LogRec INFO ''Proccessed build for: %s (%s-%s) %s''
               [AJson sm, AStr (upper nm), AJson ba, AJson bi])))))))))"

text \<open>
  \<^verbatim>\<open>__init__(**kwargs)\<close>: the result is the handle, or the error raised, in which case
  the caller gets no handle. \<open>kw_platform\<close> stands for the concrete build kind: it is the
  \<^verbatim>\<open>platform\<close> attribute of that class.
\<close>

definition dunder_init :: "env \<Rightarrow> kwargs \<Rightarrow> world \<Rightarrow> (error + build) \<times> world" where
  "dunder_init E kw w0 =
     (let build0 = (case kw_build kw of None \<Rightarrow> ''latest'' | Some x \<Rightarrow> x);
          builds = dirname build0
      in if build0 \<noteq> ''latest'' \<and> \<not> builds_has E builds build0
         then (Inl (BuildError ''Build was not found in builds.json''), w0)
         else
           (let build1 = (if build0 \<noteq> ''latest'' then build0 else builds_get_latest E builds);
                w1 = w0\<lparr>logs := logs w0 @ [LogRec INFO ''Targeting build: %s'' [AStr build1]]\<rparr>;
                bdir = builds_get_build_dir E builds build1
                         (case kw_arch kw of None \<Rightarrow> BASEARCH E | Some a \<Rightarrow> a);
                wd = (case kw_workdir kw of None \<Rightarrow> Some (getcwd E) | Some x \<Rightarrow> x)
            in case mkdtemp E w1 of
                 Inl e \<Rightarrow> (Inl e, w1)
               | Inr (tmp, w2) \<Rightarrow>
                   (case wd of
                      None \<Rightarrow> (Inl (TypeError ''str expected, not NoneType''), w2)
                    | Some d \<Rightarrow>
                        (let w3 = set_environ ''TMPDIR'' (path_join d ''tmp'')
                                    (set_environ ''workdir'' d w2);
                             b = \<lparr>self_build_dir = bdir,
                                  self_build_json = (\<lambda>k. JNull),
                                  self_found_files = [],
                                  self_workdir = wd,
                                  self_tmpdir = tmp,
                                  self_image_name = None,
                                  self_platform = kw_platform kw\<rparr>
                         in case init_checks E (b, w3) of
                              (Inl e, (b', w')) \<Rightarrow> (Inl e, w')
                            | (Inr u, (b', w')) \<Rightarrow> (Inr b', w')))))"

text \<open>The build directory that \<^verbatim>\<open>__init__\<close> resolves from its keyword arguments.\<close>

definition init_build_dir :: "env \<Rightarrow> kwargs \<Rightarrow> string" where
  "init_build_dir E kw =
     (let build0 = (case kw_build kw of None \<Rightarrow> ''latest'' | Some x \<Rightarrow> x);
          builds = dirname build0;
          build1 = (if build0 \<noteq> ''latest'' then build0 else builds_get_latest E builds)
      in builds_get_build_dir E builds build1
           (case kw_arch kw of None \<Rightarrow> BASEARCH E | Some a \<Rightarrow> a))"



section \<open>The invariant of a constructed handle\<close>

text \<open>All four documents are cached and none is \<^verbatim>\<open>None\<close>.\<close>

definition doc_names :: "string list" where
  "doc_names = [''commit'', ''config'', ''image'', ''meta'']"

definition loaded :: "build \<Rightarrow> bool" where
  "loaded b =
     (self_build_json b ''commit'' \<noteq> JNull \<and> self_build_json b ''config'' \<noteq> JNull \<and>
      self_build_json b ''image'' \<noteq> JNull \<and> self_build_json b ''meta'' \<noteq> JNull)"

section \<open>A concrete build\<close>

text \<open>
  One build of Fedora CoreOS, for the theorems below to be run on: its \<^verbatim>\<open>meta.json\<close>
  before and after an update, as documents and as the text \<^verbatim>\<open>json.dump\<close> with
  \<^verbatim>\<open>indent=4\<close> writes for them, the part of the \<^verbatim>\<open>json\<close> module that these texts need,
  an index with this one build, and the files of the build.
\<close>

definition ex_old_items :: "(string \<times> json) list" where
  "ex_old_items = [(''buildid'', JStr ''35.20220101.0''), (''name'', JStr ''fcos'')]"

definition ex_update :: "(string \<times> json) list" where
  "ex_update = [(''name'', JStr ''rhcos''), (''ref'', JStr ''r'')]"

definition ex_new_items :: "(string \<times> json) list" where
  "ex_new_items =
     [(''buildid'', JStr ''35.20220101.0''), (''name'', JStr ''rhcos''), (''ref'', JStr ''r'')]"

definition ex_line :: "string \<Rightarrow> string \<Rightarrow> bytes" where
  "ex_line k v = ''    '' @ [CHR 0x22] @ k @ [CHR 0x22] @ '': '' @ [CHR 0x22] @ v @ [CHR 0x22]"

definition ex_old_text :: bytes where
  "ex_old_text =
     ''{'' @ [CHR 0x0A] @ ex_line ''buildid'' ''35.20220101.0'' @ '','' @ [CHR 0x0A] @
     ex_line ''name'' ''fcos'' @ [CHR 0x0A] @ ''}''"

definition ex_new_text :: bytes where
  "ex_new_text =
     ''{'' @ [CHR 0x0A] @ ex_line ''buildid'' ''35.20220101.0'' @ '','' @ [CHR 0x0A] @
     ex_line ''name'' ''rhcos'' @ '','' @ [CHR 0x0A] @ ex_line ''ref'' ''r'' @ [CHR 0x0A] @ ''}''"

definition ex_dumps :: "json \<Rightarrow> bytes" where
  "ex_dumps j =
     (if j = JObj ex_old_items then ex_old_text
      else if j = JObj ex_new_items then ex_new_text
      else if j = JObj [] then ''{}''
      else ''null'')"

definition ex_loads :: "bytes \<Rightarrow> json option" where
  "ex_loads t =
     (if t = ex_old_text then Some (JObj ex_old_items)
      else if t = ex_new_text then Some (JObj ex_new_items)
      else if t = ''{}'' then Some (JObj [])
      else if t = ''null'' then Some JNull
      else None)"

definition ex_env :: env where
  "ex_env =
     \<lparr>json_dumps = ex_dumps,
      json_loads = ex_loads,
      sha256 = (\<lambda>bs. of_nat (length bs)),
      BASEARCH = ''x86_64'',
      getcwd = ''/srv'',
      builds_has = (\<lambda>wd b. b = ''35.20220101.0''),
      builds_get_latest = (\<lambda>wd. ''35.20220101.0''),
      builds_get_build_dir = (\<lambda>wd b arch. ''/srv/builds/'' @ b @ ''/'' @ arch),
      mkdtemp_name = ''/tmp/build_tmpd_k3'',
      tempfile_name = ''tmpq7x2'',
      written_through = (\<lambda>t. length t - 2),
      dir_st_size = 4096,
      recursion_limit = 1000\<rparr>"

definition ex_dir :: string where
  "ex_dir = ''/srv/builds/35.20220101.0/x86_64''"

definition ex_files :: "(string \<times> node) list" where
  "ex_files =
     [(''/tmp'', Dir),
      (''/cosa/coreos-assembler-git.json'', File ''{}'' mode_0o644),
      (ex_dir, Dir),
      (ex_dir @ ''/commitmeta.json'', File ''{}'' mode_0o644),
      (ex_dir @ ''/coreos-assembler-config-git.json'', File ''{}'' mode_0o644),
      (ex_dir @ ''/meta.json'', File ex_old_text mode_0o644),
      (ex_dir @ ''/fcos.qcow2'', File ''QFI'' mode_0o644),
      (ex_dir @ ''/fcos.iso'', File ''CD001'' mode_0o644)]"

definition ex_world :: world where
  "ex_world = \<lparr>files = map_of ex_files, environ = Map.empty, logs = [], unraisable = [],
                 hook_calls = 0\<rparr>"

text \<open>The handle of this build, as constructed, and with an edit that was not written.\<close>

definition ex_build :: build where
  "ex_build =
     \<lparr>self_build_dir = ex_dir,
      self_build_json = (\<lambda>k. if k = ''meta'' then JObj ex_old_items
                              else if k \<in> set doc_names then JObj [] else JNull),
      self_found_files = [],
      self_workdir = Some ''/srv'',
      self_tmpdir = ''/tmp/build_tmpd_k3'',
      self_image_name = None,
      self_platform = Some ''qemu''\<rparr>"

definition ex_build_edited :: build where
  "ex_build_edited =
     ex_build\<lparr>self_build_json := (self_build_json ex_build)(''meta'' := JObj ex_new_items)\<rparr>"

text \<open>
  The keyword arguments that construct this handle, and the world without \<^verbatim>\<open>meta.json\<close>.
\<close>

definition ex_kw :: kwargs where
  "ex_kw = \<lparr>kw_build = None, kw_arch = None, kw_workdir = Some (Some ''/srv''), kw_platform = Some ''qemu''\<rparr>"

definition ex_world_broken :: world where
  "ex_world_broken = ex_world\<lparr>files := (files ex_world)(ex_dir @ ''/meta.json'' := None)\<rparr>"

text \<open>The handle once the build kind has named its image.\<close>

definition ex_build_named :: build where
  "ex_build_named = image_name_setter ''fcos.qcow2'' ex_build"

text \<open>
  The handle with an image name whose file is not there, a world in which the scratch
  directory of the handle exists, and the lookup of a field that gives \<^verbatim>\<open>None\<close> for a
  missing one.
\<close>

definition ex_build_unbuilt :: build where
  "ex_build_unbuilt = image_name_setter ''fcos.raw'' ex_build"


definition field_or_none :: "(string \<times> json) list \<Rightarrow> string \<Rightarrow> json" where
  "field_or_none d k = (case map_of d k of None \<Rightarrow> JNull | Some v \<Rightarrow> v)"

section \<open>Monad and file-system facts\<close>

lemmas monad_defs = retM_def raiseM_def bindM_def liftM_def logM_def

lemma upd_tmp_away:
  assumes "f t = None" "t \<noteq> p"
  shows "(f(t \<mapsto> a))(p \<mapsto> b, t := None) = f(p \<mapsto> b)"
  using assms by (auto simp: fun_eq_iff)

lemma build_dir_upd [simp]: "build_dir (b\<lparr>self_build_json := x\<rparr>) = build_dir b"
  by (simp add: build_dir_def)

lemma dunder_file_meta: "dunder_file b ''meta'' = Inr (build_dir b @ ''/meta.json'')"
  by (simp add: dunder_file_def)

lemma load_json_written:
  assumes "json_loads E (json_dumps E j) = Some j"
  shows "load_json E p (w\<lparr>files := (files w)(p \<mapsto> File (json_dumps E j) m)\<rparr>) = Inr j"
  using assms by (simp add: load_json_def)

lemma load_json_is_file:
  "load_json E p w = Inr j \<Longrightarrow> \<exists>bs m. files w p = Some (File bs m)"
  by (auto simp: load_json_def split: option.splits node.splits)

section \<open>Writing a document\<close>

text \<open>
  What \<^verbatim>\<open>write_json\<close> does to an existing file, statement by statement, when the
  directory is there and the temporary name is free: for a text that fits the buffer, and
  for one that does not.
\<close>

lemma write_json_trace_small:
  assumes tmp: "files w (path_join (dirname path) (tempfile_name E)) = None"
    and dir: "dirname path = [] \<or> files w (dirname path) = Some Dir"
    and old: "files w path = Some (File old m0)"
    and small: "length (json_dumps E data) \<le> DEFAULT_BUFFER_SIZE"
  shows "write_json_trace E path data w =
     (let t = path_join (dirname path) (tempfile_name E) in
      [w,
       w\<lparr>files := (files w)(t \<mapsto> File [] mode_0o600)\<rparr>,
       w\<lparr>files := (files w)(t \<mapsto> File [] mode_0o600)\<rparr>,
       w\<lparr>files := (files w)(t \<mapsto> File [] mode_0o644)\<rparr>,
       w\<lparr>files := (files w)(path \<mapsto> File [] mode_0o644)\<rparr>,
       w\<lparr>files := (files w)(path \<mapsto> File (json_dumps E data) mode_0o644)\<rparr>], Inr ())"
proof -
  let ?t = "path_join (dirname path) (tempfile_name E)"
  have ne: "?t \<noteq> path" using tmp old by auto
  have ne': "path \<noteq> ?t" using ne by simp
  show ?thesis
    using tmp dir old small ne ne'
    by (simp add: write_json_trace_def NamedTemporaryFile_def os_path_exists_def Let_def
          f_write_def os_fchmod_def os_rename_def relocate_def f_close_def append_file_def
          upd_tmp_away)
qed

lemma write_json_trace_large:
  assumes tmp: "files w (path_join (dirname path) (tempfile_name E)) = None"
    and dir: "dirname path = [] \<or> files w (dirname path) = Some Dir"
    and old: "files w path = Some (File old m0)"
    and large: "\<not> length (json_dumps E data) \<le> DEFAULT_BUFFER_SIZE"
  shows "write_json_trace E path data w =
     (let t = path_join (dirname path) (tempfile_name E);
          part = take (written_through E (json_dumps E data)) (json_dumps E data) in
      [w,
       w\<lparr>files := (files w)(t \<mapsto> File [] mode_0o600)\<rparr>,
       w\<lparr>files := (files w)(t \<mapsto> File part mode_0o600)\<rparr>,
       w\<lparr>files := (files w)(t \<mapsto> File part mode_0o644)\<rparr>,
       w\<lparr>files := (files w)(path \<mapsto> File part mode_0o644)\<rparr>,
       w\<lparr>files := (files w)(path \<mapsto> File (json_dumps E data) mode_0o644)\<rparr>], Inr ())"
proof -
  let ?t = "path_join (dirname path) (tempfile_name E)"
  have ne: "?t \<noteq> path" using tmp old by auto
  have ne': "path \<noteq> ?t" using ne by simp
  show ?thesis
    using tmp dir old large ne ne'
    by (simp add: write_json_trace_def NamedTemporaryFile_def os_path_exists_def Let_def
          f_write_def os_fchmod_def os_rename_def relocate_def f_close_def append_file_def
          upd_tmp_away)
qed

lemma write_json_existing:
  assumes tmp: "files w (path_join (dirname path) (tempfile_name E)) = None"
    and dir: "dirname path = [] \<or> files w (dirname path) = Some Dir"
    and old: "files w path = Some (File old m0)"
  shows "write_json E path data w =
     (Inr (), w\<lparr>files := (files w)(path \<mapsto> File (json_dumps E data) mode_0o644)\<rparr>)"
proof (cases "length (json_dumps E data) \<le> DEFAULT_BUFFER_SIZE")
  case True
  from write_json_trace_small [OF tmp dir old True] show ?thesis
    by (simp add: write_json_def Let_def)
next
  case False
  from write_json_trace_large [OF tmp dir old False] show ?thesis
    by (simp add: write_json_def Let_def)
qed

section \<open>Merging, flushing and reloading \<^verbatim>\<open>meta\<close>\<close>

lemma refresh_meta_eq:
  "refresh_meta E (b, w) =
     (let w' = w\<lparr>logs := logs w @ [LogRec DEBUG ''Reading in %s'' [AStr (build_dir b @ ''/meta.json'')]]\<rparr>
      in case load_json E (build_dir b @ ''/meta.json'') w of
           Inl e \<Rightarrow> (Inl e, (b, w'))
         | Inr j \<Rightarrow> (Inr (), (b\<lparr>self_build_json := (self_build_json b)(''meta'' := j)\<rparr>, w')))"
  by (simp add: refresh_meta_def dunder_get_json_def dunder_file_meta monad_defs load_json_def Let_def
      split: sum.splits option.splits node.splits)

lemma meta_append_dict:
  "self_build_json b ''meta'' = JObj c \<Longrightarrow>
   meta_append u (b, w) =
     (Inr (), (b\<lparr>self_build_json := (self_build_json b)(''meta'' := JObj (dict_update c u))\<rparr>, w))"
  by (simp add: meta_append_def update_method_def)

lemma meta_write_existing:
  assumes "files w (path_join (dirname (build_dir b @ ''/meta.json'')) (tempfile_name E)) = None"
    and "dirname (build_dir b @ ''/meta.json'') = [] \<or> files w (dirname (build_dir b @ ''/meta.json'')) = Some Dir"
    and "files w (build_dir b @ ''/meta.json'') = Some (File old m0)"
  shows "meta_write E (b, w) =
     (Inr (), (b, w\<lparr>files := (files w)(build_dir b @ ''/meta.json'' \<mapsto>
                           File (json_dumps E (self_build_json b ''meta'')) mode_0o644)\<rparr>))"
  using write_json_existing [OF assms]
  by (simp add: meta_write_def dunder_file_meta)

lemma map_of_dict_set: "map_of (dict_set d k v) = (map_of d)(k \<mapsto> v)"
  by (induction d k v rule: dict_set.induct) (auto simp: fun_eq_iff)

lemma map_of_dict_update: "map_of (dict_update d u) = map_of d ++ map_of (rev u)"
proof (induction d u rule: dict_update.induct)
  case (1 d) then show ?case by simp
next
  case (2 d k v u)
  then show ?case by (simp add: map_of_dict_set map_add_upd_left fun_eq_iff map_add_def split: option.splits)
qed

lemma merge_flush_reload_run:
  assumes cache: "self_build_json b ''meta'' = JObj c"
    and old: "files w (build_dir b @ ''/meta.json'') = Some (File old m0)"
    and rt: "json_loads E (json_dumps E (JObj (dict_update c u))) = Some (JObj (dict_update c u))"
    and dir: "dirname (build_dir b @ ''/meta.json'') = [] \<or>
              files w (dirname (build_dir b @ ''/meta.json'')) = Some Dir"
    and tmp: "files w (path_join (dirname (build_dir b @ ''/meta.json'')) (tempfile_name E)) = None"
  shows "bindM (meta_append u) (\<lambda>_. bindM (meta_write E) (\<lambda>_. refresh_meta E)) (b, w) =
     (Inr (),
      (b\<lparr>self_build_json := (self_build_json b)(''meta'' := JObj (dict_update c u))\<rparr>,
       w\<lparr>files := (files w)(build_dir b @ ''/meta.json'' \<mapsto>
                     File (json_dumps E (JObj (dict_update c u))) mode_0o644),
         logs := logs w @ [LogRec DEBUG ''Reading in %s'' [AStr (build_dir b @ ''/meta.json'')]]\<rparr>))"
proof -
  let ?p = "build_dir b @ ''/meta.json''"
  let ?b1 = "b\<lparr>self_build_json := (self_build_json b)(''meta'' := JObj (dict_update c u))\<rparr>"
  have a: "meta_append u (b, w) = (Inr (), (?b1, w))"
    by (rule meta_append_dict [OF cache])
  have w: "meta_write E (?b1, w) =
      (Inr (), (?b1, w\<lparr>files := (files w)(?p \<mapsto> File (json_dumps E (JObj (dict_update c u))) mode_0o644)\<rparr>))"
    using meta_write_existing [of w ?b1 E old m0] tmp dir old by simp
  show ?thesis
    using a w load_json_written [OF rt, of ?p w mode_0o644]
    by (simp add: bindM_def refresh_meta_eq Let_def)
qed

lemma merge_reload_run:
  assumes cache: "self_build_json b ''meta'' = JObj c"
    and disk: "load_json E (build_dir b @ ''/meta.json'') w = Inr D"
  shows "bindM (meta_append u) (\<lambda>_. refresh_meta E) (b, w) =
     (Inr (),
      (b\<lparr>self_build_json := (self_build_json b)(''meta'' := D)\<rparr>,
       w\<lparr>logs := logs w @ [LogRec DEBUG ''Reading in %s'' [AStr (build_dir b @ ''/meta.json'')]]\<rparr>))"
  using meta_append_dict [OF cache, of u w] disk
  by (simp add: bindM_def refresh_meta_eq Let_def)

subsection \<open>Facts about the concrete build\<close>

lemmas ex_defs = ex_env_def ex_world_def ex_build_def ex_files_def ex_dir_def ex_dumps_def ex_loads_def
  ex_old_items_def ex_new_items_def ex_old_text_def ex_new_text_def ex_line_def ex_update_def
  ex_build_edited_def doc_names_def

lemma ex_dirname: "dirname (ex_dir @ ''/meta.json'') = ex_dir"
  by (simp add: dirname_def ex_dir_def)

lemma ex_tmp: "path_join ex_dir (tempfile_name ex_env) = ex_dir @ ''/tmpq7x2''"
  by (simp add: path_join_def ex_dir_def ex_env_def)

lemma ex_merge: "dict_update ex_old_items ex_update = ex_new_items"
  by (simp add: ex_old_items_def ex_update_def ex_new_items_def)

lemma ex_disk: "load_json ex_env (ex_dir @ ''/meta.json'') ex_world = Inr (JObj ex_old_items)"
  by (simp add: load_json_def ex_defs)

lemma ex_meta_file: "files ex_world (ex_dir @ ''/meta.json'') = Some (File ex_old_text mode_0o644)"
  by (simp add: ex_world_def ex_files_def ex_dir_def)

lemma ex_dir_is_dir: "files ex_world ex_dir = Some Dir"
  by (simp add: ex_world_def ex_files_def ex_dir_def)

lemma ex_tmp_free: "files ex_world (ex_dir @ ''/tmpq7x2'') = None"
  by (simp add: ex_world_def ex_files_def ex_dir_def)

lemma ex_build_dir: "build_dir ex_build = ex_dir" "build_dir ex_build_edited = ex_dir"
  by (simp_all add: build_dir_def ex_build_def ex_build_edited_def)

subsection \<open>Claim C1\<close>

text \<open>
  C1, as the code has it. Let the cached \<^verbatim>\<open>meta\<close> of a handle be the dict \<open>c\<close> and let
  \<^verbatim>\<open>meta.json\<close> hold the document \<open>D\<close>. Then \<^verbatim>\<open>meta_append(u)\<close>, \<^verbatim>\<open>meta_write()\<close>,
  \<^verbatim>\<open>refresh_meta()\<close> leave the cached \<^verbatim>\<open>meta\<close> equal to \<open>c\<close> shallow-merged with \<open>u\<close>, the
  last write winning for each field; this is \<open>D\<close> merged with \<open>u\<close> when the handle had no
  edit that was not written (\<open>c\<close> is \<open>D\<close>). And \<^verbatim>\<open>meta_append(u)\<close>, \<^verbatim>\<open>refresh_meta()\<close> leave
  the cached \<^verbatim>\<open>meta\<close> equal to \<open>D\<close>: \<open>u\<close> is gone. The hypotheses say that \<^verbatim>\<open>json.load\<close>
  reads back what \<^verbatim>\<open>json.dump\<close> wrote for the merged document, and that the temporary
  file can be created beside \<^verbatim>\<open>meta.json\<close>.
\<close>

theorem merge_flush_reload:
  assumes cache: "self_build_json b ''meta'' = JObj c"
    and disk: "load_json E (build_dir b @ ''/meta.json'') w = Inr D"
    and rt: "json_loads E (json_dumps E (JObj (dict_update c u))) = Some (JObj (dict_update c u))"
    and dir: "dirname (build_dir b @ ''/meta.json'') = [] \<or>
              files w (dirname (build_dir b @ ''/meta.json'')) = Some Dir"
    and tmp: "files w (path_join (dirname (build_dir b @ ''/meta.json'')) (tempfile_name E)) = None"
  shows "(\<exists>s'. bindM (meta_append u) (\<lambda>_. bindM (meta_write E) (\<lambda>_. refresh_meta E)) (b, w) = (Inr (), s')
            \<and> self_build_json (fst s') ''meta'' = JObj (dict_update c u)
            \<and> map_of (dict_update c u) = map_of c ++ map_of (rev u))
       \<and> (\<exists>s'. bindM (meta_append u) (\<lambda>_. refresh_meta E) (b, w) = (Inr (), s')
            \<and> self_build_json (fst s') ''meta'' = D)"
proof -
  from load_json_is_file [OF disk] obtain old m0
    where old: "files w (build_dir b @ ''/meta.json'') = Some (File old m0)"
    by blast
  show ?thesis
    using merge_flush_reload_run [OF cache old rt dir tmp] merge_reload_run [OF cache disk, of u]
    by (simp add: map_of_dict_update)
qed

text \<open>The concrete build: the update replaces \<^verbatim>\<open>name\<close> and adds \<^verbatim>\<open>ref\<close>.\<close>

theorem merge_flush_reload_witness:
  "self_build_json ex_build ''meta'' = JObj ex_old_items
   \<and> load_json ex_env (build_dir ex_build @ ''/meta.json'') ex_world = Inr (JObj ex_old_items)
   \<and> (\<exists>s'. bindM (meta_append ex_update) (\<lambda>_. bindM (meta_write ex_env) (\<lambda>_. refresh_meta ex_env))
              (ex_build, ex_world) = (Inr (), s')
            \<and> self_build_json (fst s') ''meta'' = JObj ex_new_items)
   \<and> (\<exists>s'. bindM (meta_append ex_update) (\<lambda>_. refresh_meta ex_env) (ex_build, ex_world) = (Inr (), s')
            \<and> self_build_json (fst s') ''meta'' = JObj ex_old_items)"
proof -
  have bd: "build_dir ex_build = ex_dir" by (rule ex_build_dir)
  have cache: "self_build_json ex_build ''meta'' = JObj ex_old_items"
    by (simp add: ex_build_def)
  have disk: "load_json ex_env (build_dir ex_build @ ''/meta.json'') ex_world = Inr (JObj ex_old_items)"
    unfolding bd by (simp add: load_json_def ex_defs)
  have rt: "json_loads ex_env (json_dumps ex_env (JObj (dict_update ex_old_items ex_update)))
              = Some (JObj (dict_update ex_old_items ex_update))"
    unfolding ex_merge by (simp add: ex_defs)
  have dir: "dirname (build_dir ex_build @ ''/meta.json'') = [] \<or>
             files ex_world (dirname (build_dir ex_build @ ''/meta.json'')) = Some Dir"
    unfolding bd ex_dirname by (simp add: ex_world_def ex_files_def ex_dir_def)
  have tmp: "files ex_world (path_join (dirname (build_dir ex_build @ ''/meta.json'')) (tempfile_name ex_env)) = None"
    unfolding bd ex_dirname ex_tmp by (simp add: ex_world_def ex_files_def ex_dir_def)
  from merge_flush_reload [OF cache disk rt dir tmp] cache disk show ?thesis
    unfolding ex_merge by blast
qed

text \<open>
  The claim as stated, for every handle, fails on a handle with an edit that was not
  written: \<^verbatim>\<open>meta.json\<close> holds the old document, the cache has \<^verbatim>\<open>name\<close> changed, and after
  merging \<^verbatim>\<open>{"ref": "r"}\<close>, flushing and reloading, the cache is not the old document
  merged with the update.
\<close>

theorem merge_flush_reload_counterexample:
  "load_json ex_env (build_dir ex_build_edited @ ''/meta.json'') ex_world = Inr (JObj ex_old_items)
   \<and> fst (bindM (meta_append [(''ref'', JStr ''r'')])
             (\<lambda>_. bindM (meta_write ex_env) (\<lambda>_. refresh_meta ex_env)) (ex_build_edited, ex_world)) = Inr ()
   \<and> self_build_json (fst (snd (bindM (meta_append [(''ref'', JStr ''r'')])
             (\<lambda>_. bindM (meta_write ex_env) (\<lambda>_. refresh_meta ex_env)) (ex_build_edited, ex_world))))
         ''meta'' = JObj ex_new_items
   \<and> JObj ex_new_items \<noteq> JObj (dict_update ex_old_items [(''ref'', JStr ''r'')])"
proof -
  have cache: "self_build_json ex_build_edited ''meta'' = JObj ex_new_items"
    by (simp add: ex_build_edited_def)
  have upd: "dict_update ex_new_items [(''ref'', JStr ''r'')] = ex_new_items"
    by (simp add: ex_new_items_def)
  have rt: "json_loads ex_env (json_dumps ex_env (JObj (dict_update ex_new_items [(''ref'', JStr ''r'')])))
              = Some (JObj (dict_update ex_new_items [(''ref'', JStr ''r'')]))"
    unfolding upd by (simp add: ex_defs)
  have run: "bindM (meta_append [(''ref'', JStr ''r'')])
             (\<lambda>_. bindM (meta_write ex_env) (\<lambda>_. refresh_meta ex_env)) (ex_build_edited, ex_world) =
     (Inr (),
      (ex_build_edited\<lparr>self_build_json := (self_build_json ex_build_edited)(''meta'' := JObj ex_new_items)\<rparr>,
       ex_world\<lparr>files := (files ex_world)(ex_dir @ ''/meta.json'' \<mapsto>
                     File (json_dumps ex_env (JObj ex_new_items)) mode_0o644),
         logs := logs ex_world @ [LogRec DEBUG ''Reading in %s'' [AStr (ex_dir @ ''/meta.json'')]]\<rparr>))"
    using merge_flush_reload_run [of ex_build_edited ex_new_items ex_world ex_old_text mode_0o644 ex_env
        "[(''ref'', JStr ''r'')]"] cache rt
    unfolding upd ex_build_dir ex_dirname ex_tmp
    by (simp add: ex_meta_file ex_dir_is_dir ex_tmp_free)
  have ne: "JObj ex_new_items \<noteq> JObj (dict_update ex_old_items [(''ref'', JStr ''r'')])"
    by (simp add: ex_new_items_def ex_old_items_def)
  show ?thesis
    unfolding run using ne by (simp add: ex_build_dir ex_disk)
qed

section \<open>Reading documents from a constructed handle\<close>

lemma cached_slot_loaded:
  "self_build_json b name \<noteq> JNull \<Longrightarrow> cached_slot E name (b, w) = (Inr (self_build_json b name), (b, w))"
  by (simp add: cached_slot_def)

lemma get_obj_loaded:
  "loaded b \<Longrightarrow> get_obj E key (b, w) =
     (case map_of [(''commit'', self_build_json b ''commit''), (''config'', self_build_json b ''config''),
                   (''image'', self_build_json b ''image''), (''meta'', self_build_json b ''meta'')] key of
        Some d \<Rightarrow> (Inr d, (b, w))
      | None \<Rightarrow> (Inl (BuildError (''invalid key '' @ key @
             '', valid keys are dict_keys(['commit', 'config', 'image', 'meta'])'')), (b, w)))"
  by (simp add: get_obj_def loaded_def commit_def config_def image_property_def meta_def
        cached_slot_loaded monad_defs)

lemma get_meta_key_loaded:
  assumes "loaded b" and "map_of [(''commit'', self_build_json b ''commit''), (''config'', self_build_json b ''config''),
                   (''image'', self_build_json b ''image''), (''meta'', self_build_json b ''meta'')] obj = Some doc"
  shows "get_meta_key E obj key (b, w) =
     (case subscript doc key of
        Inl (KeyError k) \<Rightarrow>
          (Inr JNull, (b, w\<lparr>logs := logs w @ [LogRec WARNING ''lookup for key '%s' returned: %s''
                         [AStr key, AErr (KeyError k)]]\<rparr>))
      | Inl e \<Rightarrow> (Inl e, (b, w))
      | Inr v \<Rightarrow> (Inr v, (b, w)))"
  using assms(2)
  by (simp add: get_meta_key_def bindM_def get_obj_loaded [OF assms(1)] liftM_def logM_def retM_def
      split: sum.splits error.splits)

lemma meta_loaded: "loaded b \<Longrightarrow> meta E (b, w) = (Inr (self_build_json b ''meta''), (b, w))"
  by (simp add: meta_def loaded_def cached_slot_loaded)

lemma check_slot:
  assumes "self_build_json b name = JNull" and "dunder_file b name = Inr p"
  shows "check_loaded (cached_slot E name) name (b, w) =
     (let w' = w\<lparr>logs := logs w @ [LogRec DEBUG ''Reading in %s'' [AStr p]]\<rparr> in
      case load_json E p w of
        Inl e \<Rightarrow> (Inl e, (b, w'))
      | Inr j \<Rightarrow>
          if j = JNull
          then (Inl (TypeError ''not enough arguments for format string''),
                (b\<lparr>self_build_json := (self_build_json b)(name := j)\<rparr>, w'))
          else (Inr (), (b\<lparr>self_build_json := (self_build_json b)(name := j)\<rparr>, w')))"
proof -
  have f: "dunder_file (b\<lparr>self_build_json := x\<rparr>) name = Inr p" for x
    using assms(2) by (simp add: dunder_file_def build_dir_def)
  have l: "load_json E p (w\<lparr>logs := x\<rparr>) = load_json E p w" for x
    by (simp add: load_json_def)
  show ?thesis
    using assms f
    by (simp add: check_loaded_def cached_slot_def dunder_get_json_def monad_defs Let_def l
        split: sum.splits)
qed

section \<open>Construction\<close>

lemma dunder_file_names:
  "dunder_file b ''commit'' = Inr (build_dir b @ ''/commitmeta.json'')"
  "dunder_file b ''config'' = Inr (build_dir b @ ''/coreos-assembler-config-git.json'')"
  "dunder_file b ''image'' = Inr ''/cosa/coreos-assembler-git.json''"
  "dunder_file b ''meta'' = Inr (build_dir b @ ''/meta.json'')"
  by (simp_all add: dunder_file_def)

lemmas check_commit = check_slot [where name = "''commit''", OF _ dunder_file_names(1), folded commit_def]
lemmas check_config = check_slot [where name = "''config''", OF _ dunder_file_names(2), folded config_def]
lemmas check_image = check_slot [where name = "''image''", OF _ dunder_file_names(3), folded image_property_def]
lemmas check_meta = check_slot [where name = "''meta''", OF _ dunder_file_names(4), folded meta_def]

lemma load_json_logs [simp]: "load_json E p (w\<lparr>logs := x\<rparr>) = load_json E p w"
  by (simp add: load_json_def)

lemma four_checks:
  assumes empty: "self_build_json b = (\<lambda>k. JNull)"
    and run: "bindM (check_loaded (commit E) ''commit'') (\<lambda>_.
              bindM (check_loaded (config E) ''config'') (\<lambda>_.
              bindM (check_loaded (image_property E) ''image'') (\<lambda>_.
              bindM (check_loaded (meta E) ''meta'') (\<lambda>_. k)))) (b, w) = (Inr x, s')"
  shows "\<exists>b4 w4. k (b4, w4) = (Inr x, s') \<and> loaded b4 \<and> build_dir b4 = build_dir b
           \<and> files w4 = files w
           \<and> load_json E (build_dir b @ ''/commitmeta.json'') w = Inr (self_build_json b4 ''commit'')
           \<and> load_json E (build_dir b @ ''/coreos-assembler-config-git.json'') w = Inr (self_build_json b4 ''config'')
           \<and> load_json E ''/cosa/coreos-assembler-git.json'' w = Inr (self_build_json b4 ''image'')
           \<and> load_json E (build_dir b @ ''/meta.json'') w = Inr (self_build_json b4 ''meta'')"
  using run
  apply (auto simp: bindM_def check_commit check_config check_image check_meta empty Let_def loaded_def
      split: sum.splits if_splits)
  apply (rule exI, rule exI, rule conjI, assumption)
  apply (simp add: build_dir_def)
  done

lemma tail_keeps:
  assumes l: "loaded b"
    and run: "bindM (summary E) (\<lambda>sm.
              bindM (build_name E) (\<lambda>nm.
              bindM (basearch E) (\<lambda>ba.
              bindM (build_id E) (\<lambda>bi. logM (r sm nm ba bi))))) (b, w) = (x, (b', w'))"
  shows "b' = b \<and> files w' = files w"
proof -
  note gm = get_meta_key_loaded [OF l, of "''meta''" "self_build_json b ''meta''", simplified]
  show ?thesis
    using run
    by (auto simp: bindM_def summary_def build_name_def build_id_def basearch_def gm retM_def logM_def
        liftM_def meta_loaded [OF l]
        split: sum.splits error.splits prod.splits)
qed

lemma load_json_mkdtemp:
  "load_json E p (w\<lparr>files := (files w)(t \<mapsto> Dir)\<rparr>) = Inr j \<Longrightarrow> load_json E p w = Inr j"
  by (auto simp: load_json_def split: if_splits option.splits node.splits)

lemma load_json_files_eq:
  "files w' = files w \<Longrightarrow> load_json E p w' = load_json E p w"
  by (simp add: load_json_def)

lemma dunder_init_run:
  assumes "dunder_init E kw w0 = (Inr b, w')"
  shows "\<exists>b0 w3. init_checks E (b0, w3) = (Inr (), (b, w')) \<and> self_build_json b0 = (\<lambda>k. JNull)
           \<and> build_dir b0 = init_build_dir E kw \<and> files w3 = (files w0)(mkdtemp_name E \<mapsto> Dir)"
  using assms
  unfolding dunder_init_def init_build_dir_def
  apply (auto simp: Let_def mkdtemp_def set_environ_def build_dir_def
        split: if_splits sum.splits option.splits prod.splits)
  apply ((rule exI)+, rule conjI, assumption, simp)+
  done

lemma dunder_init_success:
  assumes "dunder_init E kw w0 = (Inr b, w')"
  shows "loaded b \<and> build_dir b = init_build_dir E kw
       \<and> load_json E (build_dir b @ ''/commitmeta.json'') w0 = Inr (self_build_json b ''commit'')
       \<and> load_json E (build_dir b @ ''/coreos-assembler-config-git.json'') w0 = Inr (self_build_json b ''config'')
       \<and> load_json E ''/cosa/coreos-assembler-git.json'' w0 = Inr (self_build_json b ''image'')
       \<and> load_json E (build_dir b @ ''/meta.json'') w0 = Inr (self_build_json b ''meta'')"
proof -
  from dunder_init_run [OF assms] obtain b0 w3 where
    run: "init_checks E (b0, w3) = (Inr (), (b, w'))"
    and b0: "self_build_json b0 = (\<lambda>k. JNull)" "build_dir b0 = init_build_dir E kw"
    and w3: "files w3 = (files w0)(mkdtemp_name E \<mapsto> Dir)"
    by blast
  from four_checks [OF b0(1) run [unfolded init_checks_def]] obtain b4 w4 where
    kk: "bindM (summary E) (\<lambda>sm.
              bindM (build_name E) (\<lambda>nm.
              bindM (basearch E) (\<lambda>ba.
              bindM (build_id E) (\<lambda>bi. logM (LogRec INFO ''Proccessed build for: %s (%s-%s) %s''
                                        [AJson sm, AStr (upper nm), AJson ba, AJson bi])))))
          (b4, w4) = (Inr (), (b, w'))"
    and l: "loaded b4" and bd: "build_dir b4 = build_dir b0"
    and d1: "load_json E (build_dir b0 @ ''/commitmeta.json'') w3 = Inr (self_build_json b4 ''commit'')"
    and d2: "load_json E (build_dir b0 @ ''/coreos-assembler-config-git.json'') w3 = Inr (self_build_json b4 ''config'')"
    and d3: "load_json E ''/cosa/coreos-assembler-git.json'' w3 = Inr (self_build_json b4 ''image'')"
    and d4: "load_json E (build_dir b0 @ ''/meta.json'') w3 = Inr (self_build_json b4 ''meta'')"
    by blast
  from tail_keeps [OF l kk] have bb: "b = b4" by simp
  have orig: "load_json E p w3 = Inr j \<Longrightarrow> load_json E p w0 = Inr j" for p j
    using load_json_mkdtemp [of E p w0 "mkdtemp_name E" j]
      load_json_files_eq [of "w0\<lparr>files := (files w0)(mkdtemp_name E \<mapsto> Dir)\<rparr>" w3 E p] w3
    by simp
  show ?thesis
    using l bd b0(2) orig [OF d1] orig [OF d2] orig [OF d3] orig [OF d4]
    unfolding bb by simp
qed

lemma tail_ok:
  assumes l: "loaded b" and d: "self_build_json b ''meta'' = JObj d"
  shows "\<exists>w'. bindM (summary E) (\<lambda>sm.
              bindM (build_name E) (\<lambda>nm.
              bindM (basearch E) (\<lambda>ba.
              bindM (build_id E) (\<lambda>bi. logM (r sm nm ba bi))))) (b, w) = (Inr (), (b, w'))"
proof -
  note gm = get_meta_key_loaded [OF l, of "''meta''" "self_build_json b ''meta''", simplified]
  show ?thesis
    by (simp add: bindM_def summary_def build_name_def build_id_def basearch_def gm retM_def logM_def
        liftM_def meta_loaded [OF l] d subscript_def dict_get_def
        split: option.splits)
qed

lemma init_checks_ok:
  assumes empty: "self_build_json b = (\<lambda>k. JNull)"
    and l1: "load_json E (build_dir b @ ''/commitmeta.json'') w = Inr j1" "j1 \<noteq> JNull"
    and l2: "load_json E (build_dir b @ ''/coreos-assembler-config-git.json'') w = Inr j2" "j2 \<noteq> JNull"
    and l3: "load_json E ''/cosa/coreos-assembler-git.json'' w = Inr j3" "j3 \<noteq> JNull"
    and l4: "load_json E (build_dir b @ ''/meta.json'') w = Inr (JObj d)"
  shows "\<exists>w'. init_checks E (b, w) =
     (Inr (), (b\<lparr>self_build_json := (\<lambda>k. JNull)(''commit'' := j1, ''config'' := j2,
                                           ''image'' := j3, ''meta'' := JObj d)\<rparr>, w'))"
proof -
  let ?b4 = "b\<lparr>self_build_json := (\<lambda>k. JNull)(''commit'' := j1, ''config'' := j2,
                                           ''image'' := j3, ''meta'' := JObj d)\<rparr>"
  have l: "loaded ?b4" using l1 l2 l3 by (simp add: loaded_def)
  have d: "self_build_json ?b4 ''meta'' = JObj d" by simp
  show ?thesis
    unfolding init_checks_def
    using tail_ok [OF l d, of E] l1 l2 l3 l4
    by (simp add: bindM_def check_commit check_config check_image check_meta empty Let_def)
qed

lemma dunder_init_latest_ok:
  assumes kw: "kw_build kw = None" "kw_workdir kw = Some (Some d)"
    and free: "files w0 (mkdtemp_name E) = None"
    and checks: "\<And>(b :: build) (w :: world). self_build_json b = (\<lambda>k. JNull) \<Longrightarrow> build_dir b = init_build_dir E kw \<Longrightarrow>
            files w = (files w0)(mkdtemp_name E \<mapsto> Dir) \<Longrightarrow>
            \<exists>b' w'. init_checks E (b, w) = (Inr (), (b', w'))"
  shows "\<exists>b' w'. dunder_init E kw w0 = (Inr b', w')"
proof -
  define bdir where "bdir = builds_get_build_dir E (dirname ''latest'') (builds_get_latest E (dirname ''latest''))
                         (case kw_arch kw of None \<Rightarrow> BASEARCH E | Some a \<Rightarrow> a)"
  define b0 where "b0 = \<lparr>self_build_dir = bdir,
                                  self_build_json = (\<lambda>k. JNull),
                                  self_found_files = [],
                                  self_workdir = Some d,
                                  self_tmpdir = mkdtemp_name E,
                                  self_image_name = None,
                                  self_platform = kw_platform kw\<rparr>"
  define w3 where "w3 = set_environ ''TMPDIR'' (path_join d ''tmp'')
                                    (set_environ ''workdir'' d
            (w0\<lparr>logs := logs w0 @ [LogRec INFO ''Targeting build: %s'' [AStr (builds_get_latest E (dirname ''latest''))]],
                 files := (files w0)(mkdtemp_name E \<mapsto> Dir)\<rparr>))"
  have 1: "self_build_json b0 = (\<lambda>k. JNull)" by (simp add: b0_def)
  have 2: "build_dir b0 = init_build_dir E kw"
    by (simp add: b0_def build_dir_def init_build_dir_def kw bdir_def Let_def)
  have 3: "files w3 = (files w0)(mkdtemp_name E \<mapsto> Dir)"
    by (simp add: w3_def set_environ_def)
  from checks [OF 1 2 3] obtain b' w' where r: "init_checks E (b0, w3) = (Inr (), (b', w'))"
    by blast
  have "dunder_init E kw w0 = (Inr b', w')"
    unfolding dunder_init_def using kw free r
    by (simp add: Let_def mkdtemp_def os_path_exists_def b0_def w3_def bdir_def)
  then show ?thesis by blast
qed

lemma ex_init_dir: "init_build_dir ex_env ex_kw = ex_dir"
  by (simp add: init_build_dir_def ex_env_def ex_kw_def ex_dir_def dirname_def)

lemma ex_loads_empty: "ex_loads ''{}'' = Some (JObj [])"
  by (simp add: ex_loads_def ex_old_text_def ex_new_text_def ex_line_def)

lemma ex_load_docs:
  "load_json ex_env (ex_dir @ ''/commitmeta.json'') ex_world = Inr (JObj [])"
  "load_json ex_env (ex_dir @ ''/coreos-assembler-config-git.json'') ex_world = Inr (JObj [])"
  "load_json ex_env ''/cosa/coreos-assembler-git.json'' ex_world = Inr (JObj [])"
  by (simp_all add: load_json_def ex_world_def ex_files_def ex_dir_def ex_env_def ex_loads_empty)

lemma ex_tmpd_free: "files ex_world (mkdtemp_name ex_env) = None"
  by (simp add: ex_world_def ex_files_def ex_dir_def ex_env_def)

lemma ex_init_ok: "\<exists>b' w'. dunder_init ex_env ex_kw ex_world = (Inr b', w')"
proof (rule dunder_init_latest_ok [where d = "''/srv''"])
  show "kw_build ex_kw = None" "kw_workdir ex_kw = Some (Some ''/srv'')"
    by (simp_all add: ex_kw_def)
  show "files ex_world (mkdtemp_name ex_env) = None" by (rule ex_tmpd_free)
next
  fix b :: build and w :: world
  assume e: "self_build_json b = (\<lambda>k. JNull)" and bd: "build_dir b = init_build_dir ex_env ex_kw"
    and f: "files w = (files ex_world)(mkdtemp_name ex_env \<mapsto> Dir)"
  have same: "load_json ex_env p w = load_json ex_env p ex_world" if "p \<noteq> mkdtemp_name ex_env" for p
    using that f by (simp add: load_json_def)
  have n: "ex_dir @ ''/commitmeta.json'' \<noteq> mkdtemp_name ex_env"
    "ex_dir @ ''/coreos-assembler-config-git.json'' \<noteq> mkdtemp_name ex_env"
    "''/cosa/coreos-assembler-git.json'' \<noteq> mkdtemp_name ex_env"
    "ex_dir @ ''/meta.json'' \<noteq> mkdtemp_name ex_env"
    by (simp_all add: ex_dir_def ex_env_def)
  from init_checks_ok [of b ex_env w "JObj []" "JObj []" "JObj []" ex_old_items]
  show "\<exists>b' w'. init_checks ex_env (b, w) = (Inr (), (b', w'))"
    using e by (simp add: bd ex_init_dir same n ex_load_docs ex_disk) blast
qed

subsection \<open>Claim C3\<close>

text \<open>
  C3: construction is all or nothing over the four documents. Whenever \<^verbatim>\<open>__init__\<close>
  returns a handle, all four documents are cached, none is \<^verbatim>\<open>None\<close>, and each is what
  its file held when \<^verbatim>\<open>__init__\<close> was called. And if any of \<^verbatim>\<open>commit\<close>, \<^verbatim>\<open>config\<close>,
  \<^verbatim>\<open>image\<close>, \<^verbatim>\<open>meta\<close> fails to load from its file, or loads as \<^verbatim>\<open>None\<close>, then
  \<^verbatim>\<open>__init__\<close> raises and the caller gets no handle.
\<close>

theorem dunder_init_all_or_nothing:
  "(\<forall>b. fst (dunder_init E kw w0) = Inr b \<longrightarrow>
        loaded b \<and> build_dir b = init_build_dir E kw \<and>
        (\<forall>name \<in> set doc_names. \<exists>p. dunder_file b name = Inr p
             \<and> load_json E p w0 = Inr (self_build_json b name)
             \<and> self_build_json b name \<noteq> JNull))
   \<and> (\<forall>b0 name p. build_dir b0 = init_build_dir E kw \<and> name \<in> set doc_names
          \<and> dunder_file b0 name = Inr p \<and> (\<forall>j. load_json E p w0 = Inr j \<longrightarrow> j = JNull)
        \<longrightarrow> (\<exists>e. fst (dunder_init E kw w0) = Inl e))"
proof -
  have ok: "loaded b \<and> build_dir b = init_build_dir E kw \<and>
        (\<forall>name \<in> set doc_names. \<exists>p. dunder_file b name = Inr p
             \<and> load_json E p w0 = Inr (self_build_json b name)
             \<and> self_build_json b name \<noteq> JNull)"
    if "fst (dunder_init E kw w0) = Inr b" for b
  proof -
    have "dunder_init E kw w0 = (Inr b, snd (dunder_init E kw w0))"
      using that by (simp add: prod_eq_iff)
    from dunder_init_success [OF this] show ?thesis
      by (auto simp: doc_names_def dunder_file_names loaded_def)
  qed
  have bad: "\<exists>e. fst (dunder_init E kw w0) = Inl e"
    if bd: "build_dir b0 = init_build_dir E kw" and n: "name \<in> set doc_names"
      and p: "dunder_file b0 name = Inr p" and f: "\<forall>j. load_json E p w0 = Inr j \<longrightarrow> j = JNull"
    for b0 name p
  proof (cases "fst (dunder_init E kw w0)")
    case (Inl e)
    then show ?thesis by blast
  next
    case (Inr b)
    have same: "dunder_file b name = dunder_file b0 name"
      using ok [OF Inr] bd by (simp add: dunder_file_def)
    from ok [OF Inr] n obtain q where "dunder_file b name = Inr q"
      "load_json E q w0 = Inr (self_build_json b name)" "self_build_json b name \<noteq> JNull"
      by blast
    with same p f show ?thesis by auto
  qed
  show ?thesis using ok bad by blast
qed

text \<open>
  The concrete build is constructed with its \<^verbatim>\<open>meta\<close> loaded; without \<^verbatim>\<open>meta.json\<close>
  the construction raises.
\<close>

theorem dunder_init_all_or_nothing_witness:
  "(\<exists>b. fst (dunder_init ex_env ex_kw ex_world) = Inr b \<and> loaded b
         \<and> self_build_json b ''meta'' = JObj ex_old_items)
   \<and> load_json ex_env (ex_dir @ ''/meta.json'') ex_world_broken = Inl (FileNotFoundError (ex_dir @ ''/meta.json''))
   \<and> (\<exists>e. fst (dunder_init ex_env ex_kw ex_world_broken) = Inl e)"
proof -
  from ex_init_ok obtain b w' where r: "dunder_init ex_env ex_kw ex_world = (Inr b, w')"
    by blast
  then have f: "fst (dunder_init ex_env ex_kw ex_world) = Inr b" by simp
  note t = dunder_init_all_or_nothing [of ex_env ex_kw ex_world]
  from t f have l: "loaded b" and bd: "build_dir b = ex_dir"
    and docs: "\<forall>name \<in> set doc_names. \<exists>p. dunder_file b name = Inr p
             \<and> load_json ex_env p ex_world = Inr (self_build_json b name)"
    by (auto simp: ex_init_dir)
  from docs have "load_json ex_env (ex_dir @ ''/meta.json'') ex_world = Inr (self_build_json b ''meta'')"
    by (simp add: doc_names_def dunder_file_names bd)
  then have m: "self_build_json b ''meta'' = JObj ex_old_items"
    by (simp add: ex_disk)
  have broken: "load_json ex_env (ex_dir @ ''/meta.json'') ex_world_broken
                  = Inl (FileNotFoundError (ex_dir @ ''/meta.json''))"
    by (simp add: load_json_def ex_world_broken_def)
  have "build_dir ex_build = init_build_dir ex_env ex_kw \<and> ''meta'' \<in> set doc_names
        \<and> dunder_file ex_build ''meta'' = Inr (ex_dir @ ''/meta.json'')
        \<and> (\<forall>j. load_json ex_env (ex_dir @ ''/meta.json'') ex_world_broken = Inr j \<longrightarrow> j = JNull)"
    by (simp add: ex_init_dir ex_build_dir doc_names_def dunder_file_names broken)
  with dunder_init_all_or_nothing [of ex_env ex_kw ex_world_broken]
  have "\<exists>e. fst (dunder_init ex_env ex_kw ex_world_broken) = Inl e"
    by blast
  with f l m broken show ?thesis by blast
qed

section \<open>The window in \<^verbatim>\<open>write_json\<close>\<close>

lemma ex_new_small: "length (json_dumps ex_env (JObj ex_new_items)) \<le> DEFAULT_BUFFER_SIZE"
  by (simp add: ex_defs DEFAULT_BUFFER_SIZE_def)

lemma ex_dumps_new: "json_dumps ex_env (JObj ex_new_items) = ex_new_text"
  by (simp add: ex_env_def ex_dumps_def ex_new_items_def ex_old_items_def)

subsection \<open>Claim C2\<close>

text \<open>
  C2 says that a flush writes the document to a temporary file beside \<^verbatim>\<open>meta.json\<close>, sets
  its permission bits and renames it over \<^verbatim>\<open>meta.json\<close>, so that the canonical path holds
  the complete old document or the complete new one at all times. The three steps are
  the code's (\<open>write_json_trace_small\<close>, \<open>write_json_trace_large\<close>), and so are the mode
  \<^verbatim>\<open>0o644\<close> and the complete new document once the call has returned. But the file object
  is not flushed before \<^verbatim>\<open>os.rename\<close>: on the concrete build, flushing the updated
  document leaves, after the rename and until the file object is closed, an empty file
  at the canonical path, which is neither document. The list is what the canonical path
  holds before the call and after each statement.
\<close>

theorem write_json_unflushed_rename:
  "snd (write_json_trace ex_env (ex_dir @ ''/meta.json'') (JObj ex_new_items) ex_world) = Inr ()
   \<and> map (\<lambda>w. files w (ex_dir @ ''/meta.json''))
         (fst (write_json_trace ex_env (ex_dir @ ''/meta.json'') (JObj ex_new_items) ex_world)) =
       [Some (File ex_old_text mode_0o644),
        Some (File ex_old_text mode_0o644),
        Some (File ex_old_text mode_0o644),
        Some (File ex_old_text mode_0o644),
        Some (File [] mode_0o644),
        Some (File ex_new_text mode_0o644)]
   \<and> ex_old_text \<noteq> [] \<and> ex_new_text \<noteq> []"
proof -
  have ne: "ex_dir @ ''/meta.json'' \<noteq> ex_dir @ ''/tmpq7x2''" by simp
  have dir: "dirname (ex_dir @ ''/meta.json'') = [] \<or> files ex_world (dirname (ex_dir @ ''/meta.json'')) = Some Dir"
    by (simp add: ex_dirname ex_dir_is_dir)
  have tmp: "files ex_world (path_join (dirname (ex_dir @ ''/meta.json'')) (tempfile_name ex_env)) = None"
    by (simp add: ex_dirname ex_tmp ex_tmp_free)
  show ?thesis
    using write_json_trace_small [OF tmp dir ex_meta_file ex_new_small] ne
    by (simp add: Let_def ex_dirname ex_tmp ex_meta_file ex_dumps_new ex_old_text_def ex_new_text_def)
qed

section \<open>Artifact metadata\<close>

lemma read_loop_all: "0 < n \<Longrightarrow> read_loop n rest h = h @ rest"
proof (induction n rest h rule: read_loop.induct)
  case (1 n rest h)
  show ?case
  proof (cases "take n rest = []")
    case True
    with "1.prems" have "rest = []" by (cases rest) auto
    then show ?thesis by (subst read_loop.simps) simp
  next
    case False
    with 1 have "read_loop n (drop n rest) (h @ take n rest) = (h @ take n rest) @ drop n rest"
      by blast
    with False show ?thesis by (subst read_loop.simps) simp
  qed
qed

lemma digit_char_hex: "digit_char n \<in> set ''0123456789abcdef''"
proof -
  have "n mod 16 < length ''0123456789abcdef''" by simp
  then show ?thesis unfolding digit_char_def by (rule nth_mem)
qed

lemma hexdigest_length: "length (hexdigest d) = 64"
  unfolding hexdigest_def by (simp only: length_map length_upt diff_zero)

lemma hexdigest_chars: "set (hexdigest d) \<subseteq> set ''0123456789abcdef''"
proof
  fix c
  assume "c \<in> set (hexdigest d)"
  then obtain i where "c = digit_char (unat (drop_bit (4 * (63 - i)) d AND 15))"
    unfolding hexdigest_def by (auto simp only: set_map)
  then show "c \<in> set ''0123456789abcdef''"
    by (simp only: digit_char_hex)
qed

lemmas hexdigest_shape = hexdigest_length hexdigest_chars

lemma sha256sum_file_regular:
  "files w p = Some (File bs m) \<Longrightarrow> sha256sum_file E p w = Inr (hexdigest (sha256 E bs))"
  by (simp add: sha256sum_file_def read_loop_all)

lemma get_artifact_meta_run:
  assumes img: "self_image_name b = Some img"
    and ifile: "files w (path_join (build_dir b) img) = Some (File ibs im)"
    and ffile: "files w (path_join (build_dir b) fname) = Some (File bs m)"
  shows "get_artifact_meta E (Some fname) (b, w) =
     (Inr [(''path'', JStr fname), (''sha256sum'', JStr (hexdigest (sha256 E bs))),
           (''size'', JInt (int (length ibs)))],
      (b, w\<lparr>logs := logs w @ [LogRec INFO ''Calculating metadata for %s'' [AStr fname]]\<rparr>))"
proof -
  have s: "sha256sum_file E p (w\<lparr>logs := x\<rparr>) = sha256sum_file E p w" for p x
    by (simp add: sha256sum_file_def)
  show ?thesis
    using assms
    by (simp add: get_artifact_meta_def monad_defs image_path_def image_name_def os_stat_st_size_def s
        sha256sum_file_regular build_dir_def)
qed

lemma get_artifact_meta_default:
  "self_image_name b = Some img \<Longrightarrow>
   get_artifact_meta E None (b, w) = get_artifact_meta E (Some img) (b, w)"
  by (simp add: get_artifact_meta_def image_name_def)

subsection \<open>Claim C4\<close>

text \<open>
  C4, as the code has it. On a handle whose image name is set and whose image file
  exists, for every existing regular file \<open>fname\<close> of the build directory,
  \<^verbatim>\<open>get_artifact_meta(fname)\<close> returns the dict with \<^verbatim>\<open>path\<close> \<open>fname\<close>, with \<^verbatim>\<open>sha256sum\<close>
  the digest of the file's bytes, 64 characters of lowercase hexadecimal (the loop over
  chunks of 128 KiB feeds the hash exactly the file's bytes), and with \<^verbatim>\<open>size\<close> a
  non-negative integer, which is the byte length of that file when \<open>fname\<close> is the image
  name. Without an argument the method answers for the image name.
\<close>

theorem get_artifact_meta_existing:
  assumes img: "self_image_name b = Some img"
    and ifile: "files w (path_join (build_dir b) img) = Some (File ibs im)"
    and ffile: "files w (path_join (build_dir b) fname) = Some (File bs m)"
  shows "(\<exists>sz. fst (get_artifact_meta E (Some fname) (b, w)) =
            Inr [(''path'', JStr fname), (''sha256sum'', JStr (hexdigest (sha256 E bs))), (''size'', JInt sz)]
          \<and> 0 \<le> sz \<and> (fname = img \<longrightarrow> sz = int (length bs)))
       \<and> sha256sum_file E (path_join (build_dir b) fname) w = Inr (hexdigest (sha256 E bs))
       \<and> read_loop (128 * 1024) bs [] = bs
       \<and> length (hexdigest (sha256 E bs)) = 64
       \<and> set (hexdigest (sha256 E bs)) \<subseteq> set ''0123456789abcdef''
       \<and> get_artifact_meta E None (b, w) = get_artifact_meta E (Some img) (b, w)"
proof -
  have "fname = img \<Longrightarrow> ibs = bs" using ifile ffile by simp
  then show ?thesis
    using get_artifact_meta_run [OF assms, of E] hexdigest_shape [of "sha256 E bs"]
      sha256sum_file_regular [OF ffile, of E] get_artifact_meta_default [OF img, of E w]
    by (simp add: read_loop_all)
qed

lemma ex_named: "self_image_name ex_build_named = Some ''fcos.qcow2''" "build_dir ex_build_named = ex_dir"
  by (simp_all add: ex_build_named_def image_name_setter_def build_dir_def ex_build_def)

lemma ex_artifacts:
  "files ex_world (path_join ex_dir ''fcos.qcow2'') = Some (File ''QFI'' mode_0o644)"
  "files ex_world (path_join ex_dir ''fcos.iso'') = Some (File ''CD001'' mode_0o644)"
  by (simp_all add: path_join_def ex_dir_def ex_world_def ex_files_def)

theorem get_artifact_meta_existing_witness:
  "self_image_name ex_build_named = Some ''fcos.qcow2''
   \<and> files ex_world (path_join (build_dir ex_build_named) ''fcos.qcow2'') = Some (File ''QFI'' mode_0o644)
   \<and> fst (get_artifact_meta ex_env (Some ''fcos.qcow2'') (ex_build_named, ex_world)) =
        Inr [(''path'', JStr ''fcos.qcow2''), (''sha256sum'', JStr (hexdigest (sha256 ex_env ''QFI''))),
             (''size'', JInt 3)]
   \<and> length (hexdigest (sha256 ex_env ''QFI'')) = 64"
  using get_artifact_meta_existing [of ex_build_named "''fcos.qcow2''" ex_world "''QFI''" mode_0o644
      "''fcos.qcow2''" "''QFI''" mode_0o644 ex_env]
  by (auto simp: ex_named ex_artifacts)

text \<open>
  The claim as stated fails: the dict has no field \<^verbatim>\<open>sha256\<close>, the digest is under
  \<^verbatim>\<open>sha256sum\<close>; and \<^verbatim>\<open>size\<close> is read from the image file, so for \<^verbatim>\<open>fcos.iso\<close>, of five
  bytes, on a handle whose image is \<^verbatim>\<open>fcos.qcow2\<close>, of three bytes, the size returned is 3.
\<close>

theorem get_artifact_meta_counterexample:
  "files ex_world (path_join (build_dir ex_build_named) ''fcos.iso'') = Some (File ''CD001'' mode_0o644)
   \<and> map_sum id (map fst) (fst (get_artifact_meta ex_env (Some ''fcos.iso'') (ex_build_named, ex_world)))
       = Inr [''path'', ''sha256sum'', ''size'']
   \<and> map_sum id (\<lambda>r. map_of r ''size'') (fst (get_artifact_meta ex_env (Some ''fcos.iso'') (ex_build_named, ex_world)))
       = Inr (Some (JInt 3))
   \<and> int (length ''CD001'') \<noteq> 3"
  using get_artifact_meta_run [of ex_build_named "''fcos.qcow2''" ex_world "''QFI''" mode_0o644
      "''fcos.iso''" "''CD001''" mode_0o644 ex_env]
  by (simp add: ex_named ex_artifacts)

section \<open>Ensuring the artifact is built\<close>

lemma call_hook_count: "hook_calls (snd (snd (call_hook hook s))) = Suc (hook_calls (snd s))"
  by (cases s) (simp add: call_hook_def split: prod.splits)

lemma build_artifacts_count:
  "hook_calls (snd (snd (build_artifacts hook s))) = Suc (hook_calls (snd s))"
proof -
  obtain b w where s: "s = (b, w)" by (cases s)
  let ?w1 = "w\<lparr>logs := logs w @ [LogRec INFO ''Processing the build artifacts'' []]\<rparr>"
  obtain r b' w' where h: "call_hook hook (b, ?w1) = (r, (b', w'))"
    by (metis prod.exhaust)
  from call_hook_count [of hook "(b, ?w1)"] h have c: "hook_calls w' = Suc (hook_calls w)"
    by simp
  show ?thesis
    using h c by (cases r) (simp_all add: s build_artifacts_def bindM_def logM_def)
qed

subsection \<open>Claim C5\<close>

text \<open>
  C5: \<^verbatim>\<open>ensure_built()\<close> calls the production hook once if \<^verbatim>\<open>have_artifact\<close> is false at
  that moment, and not at all otherwise: the ghost counter of hook calls grows by one in the
  first case and stays in the second, whatever the hook is. When \<^verbatim>\<open>have_artifact\<close> is
  false the call is \<^verbatim>\<open>build_artifacts()\<close>; when the artifact exists, one call and two calls
  in a row return and change nothing; when \<^verbatim>\<open>have_artifact\<close> raises, so does
  \<^verbatim>\<open>ensure_built()\<close>, and nothing is changed.
\<close>

theorem ensure_built_coordinator:
  "hook_calls (snd (snd (ensure_built hook s))) =
     hook_calls (snd s) + (if have_artifact s = Inr False then 1 else 0)
   \<and> (have_artifact s = Inr False \<longrightarrow> ensure_built hook s = build_artifacts hook s)
   \<and> (have_artifact s = Inr True \<longrightarrow>
         ensure_built hook s = (Inr (), s)
         \<and> bindM (ensure_built hook) (\<lambda>_. ensure_built hook) s = (Inr (), s))
   \<and> (\<forall>e. have_artifact s = Inl e \<longrightarrow> ensure_built hook s = (Inl e, s))"
  using build_artifacts_count [of hook s]
  by (auto simp: ensure_built_def bindM_def split: sum.splits bool.splits)

lemma ex_unbuilt:
  "self_image_name ex_build_unbuilt = Some ''fcos.raw''" "build_dir ex_build_unbuilt = ex_dir"
  "files ex_world (path_join ex_dir ''fcos.raw'') = None"
  by (simp_all add: ex_build_unbuilt_def image_name_setter_def build_dir_def ex_build_def
      path_join_def ex_dir_def ex_world_def ex_files_def)

lemma ex_have:
  "have_artifact (ex_build_named, ex_world) = Inr True"
  "have_artifact (ex_build_unbuilt, ex_world) = Inr False"
  by (simp_all add: have_artifact_def image_path_def image_name_def ex_named ex_artifacts
      ex_unbuilt os_path_exists_def)

lemma ex_no_calls: "hook_calls ex_world = 0"
  by (simp add: ex_world_def)

text \<open>
  On the concrete build: with the image there, two calls make no hook call; with the image
  missing, one call makes one.
\<close>

theorem ensure_built_coordinator_witness:
  "have_artifact (ex_build_named, ex_world) = Inr True
   \<and> bindM (ensure_built underscore_build_artifacts) (\<lambda>_. ensure_built underscore_build_artifacts)
        (ex_build_named, ex_world) = (Inr (), (ex_build_named, ex_world))
   \<and> hook_calls (snd (snd (ensure_built underscore_build_artifacts (ex_build_named, ex_world)))) = 0
   \<and> have_artifact (ex_build_unbuilt, ex_world) = Inr False
   \<and> hook_calls (snd (snd (ensure_built underscore_build_artifacts (ex_build_unbuilt, ex_world)))) = 1"
  using ensure_built_coordinator [of underscore_build_artifacts "(ex_build_named, ex_world)"]
    ensure_built_coordinator [of underscore_build_artifacts "(ex_build_unbuilt, ex_world)"]
    ex_no_calls
  by (auto simp: ex_have)

subsection \<open>Claim C10\<close>

text \<open>
  C10: on a handle whose image name was never set, \<^verbatim>\<open>image_name\<close> and \<^verbatim>\<open>image_path\<close> raise
  NotImplementedError, and so do \<^verbatim>\<open>have_artifact\<close> and \<^verbatim>\<open>ensure_built()\<close>, which changes
  nothing and calls no hook. Once an image name is set, \<^verbatim>\<open>have_artifact\<close> is true exactly
  when the file of that name exists in the build directory.
\<close>

theorem image_name_unset:
  "(self_image_name b = None \<longrightarrow>
      image_name b = Inl (NotImplementedError ''image naming is not implmented here'')
      \<and> image_path b = Inl (NotImplementedError ''image naming is not implmented here'')
      \<and> have_artifact (b, w) = Inl (NotImplementedError ''image naming is not implmented here'')
      \<and> ensure_built hook (b, w) =
          (Inl (NotImplementedError ''image naming is not implmented here''), (b, w)))
   \<and> (\<forall>n. self_image_name b = Some n \<longrightarrow>
         image_name b = Inr n \<and> image_path b = Inr (path_join (build_dir b) n)
         \<and> have_artifact (b, w) = Inr (os_path_exists w (path_join (build_dir b) n)))"
  by (simp add: image_name_def image_path_def have_artifact_def ensure_built_def)

theorem image_name_unset_witness:
  "self_image_name ex_build = None
   \<and> have_artifact (ex_build, ex_world) = Inl (NotImplementedError ''image naming is not implmented here'')
   \<and> ensure_built underscore_build_artifacts (ex_build, ex_world) =
          (Inl (NotImplementedError ''image naming is not implmented here''), (ex_build, ex_world))
   \<and> self_image_name ex_build_named = Some ''fcos.qcow2''
   \<and> have_artifact (ex_build_named, ex_world) = Inr True"
proof -
  have n: "self_image_name ex_build = None" by (simp add: ex_build_def)
  have e: "os_path_exists ex_world (path_join (build_dir ex_build_named) ''fcos.qcow2'')"
    by (simp add: os_path_exists_def ex_named ex_artifacts)
  from image_name_unset [of ex_build ex_world underscore_build_artifacts]
    image_name_unset [of ex_build_named ex_world underscore_build_artifacts] n e
  show ?thesis by (simp add: ex_named)
qed

section \<open>Lookups\<close>

lemma get_obj_no_document:
  assumes "key \<notin> set doc_names"
  shows "fst (get_obj E key s) \<noteq> Inr d"
  using assms
  by (auto simp: get_obj_def bindM_def retM_def raiseM_def doc_names_def split: prod.splits sum.splits)

lemma bindM_InrD:
  "bindM m f s = (Inr y, s') \<Longrightarrow> \<exists>x s1. m s = (Inr x, s1) \<and> f x s1 = (Inr y, s')"
  by (auto simp: bindM_def split: prod.splits sum.splits)

lemma bindM_Inr: "m s = (Inr x, s1) \<Longrightarrow> bindM m f s = f x s1"
  by (simp add: bindM_def)

lemma get_obj_reads:
  assumes key: "key \<notin> set doc_names" and k: "k \<in> set doc_names"
    and run: "get_obj E k s = (Inr d, s')"
  shows "get_obj E key s =
           (Inl (BuildError (''invalid key '' @ key @
                 '', valid keys are dict_keys(['commit', 'config', 'image', 'meta'])'')), s')"
proof -
  from bindM_InrD [OF run [unfolded get_obj_def]] obtain c s1 where
    1: "commit E s = (Inr c, s1)" and r1: "bindM (config E) (\<lambda>cf.
     bindM (image_property E) (\<lambda>i.
     bindM (meta E) (\<lambda>m.
       case map_of [(''commit'', c), (''config'', cf), (''image'', i), (''meta'', m)] k of
         Some d \<Rightarrow> retM d
       | None \<Rightarrow>
           raiseM (BuildError (''invalid key '' @ k @
             '', valid keys are dict_keys(['commit', 'config', 'image', 'meta'])''))))) s1 = (Inr d, s')"
    by blast
  from bindM_InrD [OF r1] obtain cf s2 where
    2: "config E s1 = (Inr cf, s2)" and r2: "bindM (image_property E) (\<lambda>i.
     bindM (meta E) (\<lambda>m.
       case map_of [(''commit'', c), (''config'', cf), (''image'', i), (''meta'', m)] k of
         Some d \<Rightarrow> retM d
       | None \<Rightarrow>
           raiseM (BuildError (''invalid key '' @ k @
             '', valid keys are dict_keys(['commit', 'config', 'image', 'meta'])'')))) s2 = (Inr d, s')"
    by blast
  from bindM_InrD [OF r2] obtain i s3 where
    3: "image_property E s2 = (Inr i, s3)" and r3: "bindM (meta E) (\<lambda>m.
       case map_of [(''commit'', c), (''config'', cf), (''image'', i), (''meta'', m)] k of
         Some d \<Rightarrow> retM d
       | None \<Rightarrow>
           raiseM (BuildError (''invalid key '' @ k @
             '', valid keys are dict_keys(['commit', 'config', 'image', 'meta'])''))) s3 = (Inr d, s')"
    by blast
  from bindM_InrD [OF r3] obtain m s4 where
    4: "meta E s3 = (Inr m, s4)" and r4: "(case map_of [(''commit'', c), (''config'', cf), (''image'', i), (''meta'', m)] k of
         Some d \<Rightarrow> retM d
       | None \<Rightarrow>
           raiseM (BuildError (''invalid key '' @ k @
             '', valid keys are dict_keys(['commit', 'config', 'image', 'meta'])''))) s4 = (Inr d, s')"
    by blast
  from r4 have s': "s' = s4"
    by (auto simp: retM_def raiseM_def split: option.splits)
  have none: "map_of [(''commit'', c), (''config'', cf), (''image'', i), (''meta'', m)] key = None"
    using key by (simp add: doc_names_def)
  show ?thesis
    unfolding get_obj_def
    by (simp only: bindM_Inr [of "commit E" s c s1, OF 1] bindM_Inr [of "config E" s1 cf s2, OF 2]
          bindM_Inr [of "image_property E" s2 i s3, OF 3] bindM_Inr [of "meta E" s3 m s4, OF 4]
          none option.case raiseM_def s')
qed

subsection \<open>Claim C6\<close>

text \<open>
  C6: for a key that is none of \<^verbatim>\<open>commit\<close>, \<^verbatim>\<open>config\<close>, \<^verbatim>\<open>image\<close>, \<^verbatim>\<open>meta\<close>,
  \<^verbatim>\<open>get_obj(key)\<close> never returns a document or \<^verbatim>\<open>None\<close>, on any handle in any world.
  What it raises is the BuildError that names the key and the valid keys, whenever
  \<^verbatim>\<open>get_obj\<close> returns for a recognized key in the same state; so it is on a handle with
  its four documents loaded, as construction leaves it, and there nothing is changed.
\<close>

theorem get_obj_unknown_key:
  assumes "key \<notin> set doc_names"
  shows "(\<forall>d. fst (get_obj E key s) \<noteq> Inr d)
       \<and> (\<forall>k d s'. k \<in> set doc_names \<and> get_obj E k s = (Inr d, s') \<longrightarrow>
            get_obj E key s =
              (Inl (BuildError (''invalid key '' @ key @
                 '', valid keys are dict_keys(['commit', 'config', 'image', 'meta'])'')), s'))
       \<and> (loaded (fst s) \<longrightarrow>
            get_obj E key s =
              (Inl (BuildError (''invalid key '' @ key @
                 '', valid keys are dict_keys(['commit', 'config', 'image', 'meta'])'')), s))"
proof -
  obtain b w where s: "s = (b, w)" by (cases s)
  have "map_of [(''commit'', self_build_json b ''commit''), (''config'', self_build_json b ''config''),
                (''image'', self_build_json b ''image''), (''meta'', self_build_json b ''meta'')] key = None"
    using assms by (simp add: doc_names_def)
  then have l: "loaded (fst s) \<longrightarrow>
            get_obj E key s =
              (Inl (BuildError (''invalid key '' @ key @
                 '', valid keys are dict_keys(['commit', 'config', 'image', 'meta'])'')), s)"
    by (simp add: s get_obj_loaded)
  from get_obj_no_document [OF assms, of E s] get_obj_reads [OF assms, of _ E s] l
  show ?thesis by blast
qed

lemma ex_loaded: "loaded ex_build" "loaded ex_build_named"
  by (simp_all add: loaded_def ex_build_def doc_names_def ex_build_named_def image_name_setter_def)

theorem get_obj_unknown_key_witness:
  "''metadata'' \<notin> set doc_names \<and> loaded ex_build
   \<and> get_obj ex_env ''metadata'' (ex_build, ex_world) =
       (Inl (BuildError ''invalid key metadata, valid keys are dict_keys(['commit', 'config', 'image', 'meta'])''),
        (ex_build, ex_world))"
proof -
  have k: "''metadata'' \<notin> set doc_names" by (simp add: doc_names_def)
  from get_obj_unknown_key [OF k, of ex_env "(ex_build, ex_world)"] k show ?thesis
    by (simp add: ex_loaded)
qed

lemma get_obj_doc:
  assumes "loaded b" "obj \<in> set doc_names"
  shows "get_obj E obj (b, w) = (Inr (self_build_json b obj), (b, w))"
  using assms(2) by (auto simp: get_obj_loaded [OF assms(1)] doc_names_def)

lemma get_meta_key_dict:
  assumes "loaded b" "obj \<in> set doc_names" "self_build_json b obj = JObj d"
  shows "get_meta_key E obj key (b, w) =
     (case map_of d key of
        Some v \<Rightarrow> (Inr v, (b, w))
      | None \<Rightarrow> (Inr JNull, (b, w\<lparr>logs := logs w @ [LogRec WARNING ''lookup for key '%s' returned: %s''
                         [AStr key, AErr (KeyError key)]]\<rparr>)))"
  by (simp add: get_meta_key_def bindM_def get_obj_doc [OF assms(1,2)] assms(3) liftM_def subscript_def
      logM_def retM_def split: option.splits)

lemma get_sub_obj_dict:
  assumes "loaded b" "obj \<in> set doc_names" "self_build_json b obj = JObj d"
  shows "get_sub_obj_depth (Suc (Suc n)) E (JStr obj) key sub (b, w) =
     (case (case subscript (JObj d) key of Inl e \<Rightarrow> Inl e | Inr v \<Rightarrow> subscript v sub) of
        Inl (KeyError k) \<Rightarrow> (Inr JNull, (b, w\<lparr>logs := logs w @ [LogRec WARNING (py_str (JObj d)) []]\<rparr>))
      | Inl e \<Rightarrow> (Inl e, (b, w))
      | Inr v \<Rightarrow> (Inr v, (b, w)))"
proof -
  define r where "r = (case subscript (JObj d) key of Inl e \<Rightarrow> Inl e | Inr v \<Rightarrow> subscript v sub)"
  have 1: "get_sub_obj_depth (Suc (Suc n)) E (JStr obj) key sub (b, w) =
           get_sub_obj_depth (Suc n) E (JObj d) key sub (b, w)"
    by (simp add: bindM_def get_obj_doc [OF assms(1,2)] assms(3))
  have 2: "get_sub_obj_depth (Suc n) E (JObj d) key sub (b, w) =
     (case r of
        Inl (KeyError k) \<Rightarrow> (Inr JNull, (b, w\<lparr>logs := logs w @ [LogRec WARNING (py_str (JObj d)) []]\<rparr>))
      | Inl e \<Rightarrow> (Inl e, (b, w))
      | Inr v \<Rightarrow> (Inr v, (b, w)))"
  proof (cases r)
    case (Inl e)
    then show ?thesis
      by (cases e) (simp_all add: r_def [symmetric] bindM_def logM_def retM_def raiseM_def)
  next
    case (Inr v)
    then show ?thesis by (simp add: r_def [symmetric] retM_def)
  qed
  show ?thesis unfolding 1 2 r_def ..
qed

subsection \<open>Claim C7\<close>

text \<open>
  C7, as the code has it. On a handle with its four documents loaded, for a recognized
  key whose document is a dict: \<^verbatim>\<open>get_meta_key\<close> never raises, and for a field that the
  document lacks it returns \<^verbatim>\<open>None\<close> and logs one warning; \<^verbatim>\<open>get_sub_obj\<close> returns
  \<^verbatim>\<open>None\<close> and logs one warning when the document lacks the field, or when the field is
  itself a dict that lacks the subfield (the interpreter having room for the two nested
  calls).
\<close>

theorem soft_lookups:
  assumes "loaded b" "obj \<in> set doc_names" "self_build_json b obj = JObj d"
  shows "(\<exists>v s'. get_meta_key E obj key (b, w) = (Inr v, s'))
       \<and> (map_of d key = None \<longrightarrow>
            get_meta_key E obj key (b, w) =
              (Inr JNull, (b, w\<lparr>logs := logs w @ [LogRec WARNING ''lookup for key '%s' returned: %s''
                         [AStr key, AErr (KeyError key)]]\<rparr>)))
       \<and> (1 < recursion_limit E \<and>
            (map_of d key = None \<or> (\<exists>d2. map_of d key = Some (JObj d2) \<and> map_of d2 sub = None)) \<longrightarrow>
            get_sub_obj E (JStr obj) key sub (b, w) =
              (Inr JNull, (b, w\<lparr>logs := logs w @ [LogRec WARNING (py_str (JObj d)) []]\<rparr>)))"
proof (intro conjI impI)
  show "\<exists>v s'. get_meta_key E obj key (b, w) = (Inr v, s')"
    by (cases "map_of d key") (simp_all add: get_meta_key_dict [OF assms])
next
  assume "map_of d key = None"
  then show "get_meta_key E obj key (b, w) =
              (Inr JNull, (b, w\<lparr>logs := logs w @ [LogRec WARNING ''lookup for key '%s' returned: %s''
                         [AStr key, AErr (KeyError key)]]\<rparr>))"
    by (simp add: get_meta_key_dict [OF assms])
next
  assume a: "1 < recursion_limit E \<and>
            (map_of d key = None \<or> (\<exists>d2. map_of d key = Some (JObj d2) \<and> map_of d2 sub = None))"
  then have "1 < recursion_limit E" by simp
  then have "recursion_limit E = Suc (Suc (recursion_limit E - 2))" by simp
  then obtain n where n: "recursion_limit E = Suc (Suc n)" by blast
  from a have "(case subscript (JObj d) key of Inl e \<Rightarrow> Inl e | Inr v \<Rightarrow> subscript v sub) = Inl (KeyError key)
      \<or> (case subscript (JObj d) key of Inl e \<Rightarrow> Inl e | Inr v \<Rightarrow> subscript v sub) = Inl (KeyError sub)"
    by (auto simp: subscript_def)
  then show "get_sub_obj E (JStr obj) key sub (b, w) =
              (Inr JNull, (b, w\<lparr>logs := logs w @ [LogRec WARNING (py_str (JObj d)) []]\<rparr>))"
    unfolding get_sub_obj_def n get_sub_obj_dict [OF assms] by auto
qed

lemma ex_meta_doc: "self_build_json ex_build ''meta'' = JObj ex_old_items"
  by (simp add: ex_build_def)

theorem soft_lookups_witness:
  "loaded ex_build \<and> ''meta'' \<in> set doc_names \<and> self_build_json ex_build ''meta'' = JObj ex_old_items
   \<and> map_of ex_old_items ''summary'' = None
   \<and> get_meta_key ex_env ''meta'' ''summary'' (ex_build, ex_world) =
        (Inr JNull, (ex_build, ex_world\<lparr>logs := logs ex_world @
             [LogRec WARNING ''lookup for key '%s' returned: %s''
                 [AStr ''summary'', AErr (KeyError ''summary'')]]\<rparr>))
   \<and> 1 < recursion_limit ex_env
   \<and> fst (get_sub_obj ex_env (JStr ''meta'') ''summary'' ''text'' (ex_build, ex_world)) = Inr JNull"
proof -
  have m: "''meta'' \<in> set doc_names" by (simp add: doc_names_def)
  have a: "map_of ex_old_items ''summary'' = None" by (simp add: ex_old_items_def)
  have r: "1 < recursion_limit ex_env" by (simp add: ex_env_def)
  from soft_lookups [OF ex_loaded(1) m ex_meta_doc, of ex_env "''summary''" ex_world "''text''"] a r
  show ?thesis by (simp add: ex_loaded m ex_meta_doc)
qed

text \<open>
  The claim as stated fails for a subfield of a field that is not a dict: on the concrete
  build, \<^verbatim>\<open>name\<close> is a string, and \<^verbatim>\<open>get_sub_obj("meta", "name", "text")\<close> raises TypeError,
  which the \<^verbatim>\<open>except KeyError\<close> does not catch.
\<close>

theorem soft_lookups_counterexample:
  "loaded ex_build \<and> self_build_json ex_build ''meta'' = JObj ex_old_items
   \<and> map_of ex_old_items ''name'' = Some (JStr ''fcos'')
   \<and> get_sub_obj ex_env (JStr ''meta'') ''name'' ''text'' (ex_build, ex_world) =
        (Inl (TypeError ''string indices must be integers''), (ex_build, ex_world))"
proof -
  have m: "''meta'' \<in> set doc_names" by (simp add: doc_names_def)
  have r: "recursion_limit ex_env = Suc (Suc 998)" by (simp add: ex_env_def)
  have n: "map_of ex_old_items ''name'' = Some (JStr ''fcos'')" by (simp add: ex_old_items_def)
  show ?thesis
    unfolding get_sub_obj_def r get_sub_obj_dict [OF ex_loaded(1) m ex_meta_doc]
    by (simp add: ex_loaded ex_meta_doc n subscript_def)
qed

section \<open>The base name of the image\<close>

lemma get_meta_key_meta_fst:
  assumes "loaded b" "self_build_json b ''meta'' = JObj d"
  shows "\<exists>w'. get_meta_key E ''meta'' key (b, w) = (Inr (field_or_none d key), (b, w'))"
proof -
  have m: "''meta'' \<in> set doc_names" by (simp add: doc_names_def)
  show ?thesis
    by (cases "map_of d key") (simp_all add: get_meta_key_dict [OF assms(1) m assms(2)] field_or_none_def)
qed

lemma build_name_run:
  assumes "loaded b" "self_build_json b ''meta'' = JObj d"
  shows "\<exists>w'. build_name E (b, w) = (Inr (py_str (field_or_none d ''name'')), (b, w'))"
  using get_meta_key_meta_fst [OF assms, of E "''name''" w]
  by (auto simp: build_name_def bindM_def retM_def)

lemma build_id_run:
  assumes "loaded b" "self_build_json b ''meta'' = JObj d"
  shows "\<exists>w'. build_id E (b, w) = (Inr (field_or_none d ''buildid''), (b, w'))"
  using get_meta_key_meta_fst [OF assms, of E "''buildid''" w]
  by (simp add: build_id_def)

lemma basearch_run:
  assumes "loaded b" "self_build_json b ''meta'' = JObj d"
  shows "basearch E (b, w) =
     (Inr (case map_of d (ckey ''coreos-assembler.basearch'') of
             None \<Rightarrow> JStr (BASEARCH E) | Some v \<Rightarrow> v), (b, w))"
  by (simp add: basearch_def bindM_def meta_loaded [OF assms(1)] assms(2) liftM_def dict_get_def
      split: option.splits)

lemma platform_run: "self_platform b = Some p \<Longrightarrow> platform (b, w) = (Inr p, (b, w))"
  by (simp add: platform_def)

subsection \<open>Claim C8\<close>

text \<open>
  C8, as the code has it. On a handle with no image name set, with its documents loaded,
  \<^verbatim>\<open>meta\<close> a dict and a platform, \<^verbatim>\<open>image_name_base\<close> is the string
  \<^verbatim>\<open>"{name}-{id}-{platform}.{arch}"\<close> of what \<^verbatim>\<open>build_name\<close>, \<^verbatim>\<open>build_id\<close>, \<^verbatim>\<open>platform\<close> and
  \<^verbatim>\<open>basearch\<close> return. On a handle with an image name set, it is that image name.
\<close>

theorem image_name_base_composition:
  "(self_image_name b = None \<and> loaded b \<and> self_build_json b ''meta'' = JObj d
      \<and> self_platform b = Some p \<longrightarrow>
      (\<exists>name bid arch.
         fst (build_name E (b, w)) = Inr name
         \<and> fst (build_id E (b, w)) = Inr bid
         \<and> fst (platform (b, w)) = Inr p
         \<and> fst (basearch E (b, w)) = Inr arch
         \<and> fst (image_name_base E (b, w)) = Inr (name @ ''-'' @ py_str bid @ ''-'' @ p @ ''.'' @ py_str arch)))
   \<and> (\<forall>n. self_image_name b = Some n \<longrightarrow> image_name_base E (b, w) = (Inr n, (b, w)))"
proof (intro conjI impI allI)
  assume a: "self_image_name b = None \<and> loaded b \<and> self_build_json b ''meta'' = JObj d
      \<and> self_platform b = Some p"
  then have l: "loaded b" and m: "self_build_json b ''meta'' = JObj d"
    and n: "self_image_name b = None" and pl: "self_platform b = Some p"
    by simp_all
  from build_name_run [OF l m, of E w] obtain w1
    where 1: "build_name E (b, w) = (Inr (py_str (field_or_none d ''name'')), (b, w1))" by blast
  from build_id_run [OF l m, of E w1] obtain w2
    where 2: "build_id E (b, w1) = (Inr (field_or_none d ''buildid''), (b, w2))" by blast
  from build_id_run [OF l m, of E w] obtain w2'
    where id0: "build_id E (b, w) = (Inr (field_or_none d ''buildid''), (b, w2'))" by blast
  have "fst (image_name_base E (b, w)) =
      Inr (py_str (field_or_none d ''name'') @ ''-'' @ py_str (field_or_none d ''buildid'') @ ''-'' @ p @ ''.'' @
           py_str (case map_of d (ckey ''coreos-assembler.basearch'') of
             None \<Rightarrow> JStr (BASEARCH E) | Some v \<Rightarrow> v))"
    by (simp add: image_name_base_def n bindM_def 1 2 platform_run [OF pl] basearch_run [OF l m] retM_def)
  then show "\<exists>name bid arch.
         fst (build_name E (b, w)) = Inr name
         \<and> fst (build_id E (b, w)) = Inr bid
         \<and> fst (platform (b, w)) = Inr p
         \<and> fst (basearch E (b, w)) = Inr arch
         \<and> fst (image_name_base E (b, w)) = Inr (name @ ''-'' @ py_str bid @ ''-'' @ p @ ''.'' @ py_str arch)"
    by (simp add: 1 id0 platform_run [OF pl] basearch_run [OF l m])
next
  fix n
  assume "self_image_name b = Some n"
  then show "image_name_base E (b, w) = (Inr n, (b, w))"
    by (simp add: image_name_base_def)
qed

lemma ex_named_meta: "self_build_json ex_build_named ''meta'' = JObj ex_old_items"
  "self_platform ex_build_named = Some ''qemu''" "self_platform ex_build = Some ''qemu''"
  "self_image_name ex_build = None"
  by (simp_all add: ex_build_named_def image_name_setter_def ex_build_def)

lemma ex_fields:
  "field_or_none ex_old_items ''name'' = JStr ''fcos''"
  "field_or_none ex_old_items ''buildid'' = JStr ''35.20220101.0''"
  "map_of ex_old_items (ckey ''coreos-assembler.basearch'') = None"
  "BASEARCH ex_env = ''x86_64''"
  by (simp_all add: field_or_none_def ex_old_items_def ckey_def ex_env_def)

lemma ex_accessors:
  assumes "loaded b" "self_build_json b ''meta'' = JObj ex_old_items" "self_platform b = Some ''qemu''"
  shows "fst (build_name ex_env (b, w)) = Inr ''fcos''"
    "fst (build_id ex_env (b, w)) = Inr (JStr ''35.20220101.0'')"
    "fst (platform (b, w)) = Inr ''qemu''"
    "fst (basearch ex_env (b, w)) = Inr (JStr ''x86_64'')"
  using build_name_run [OF assms(1,2), of ex_env w] build_id_run [OF assms(1,2), of ex_env w]
    basearch_run [OF assms(1,2), of ex_env w] platform_run [OF assms(3), of w]
  by (auto simp: ex_fields py_str_def)

text \<open>
  The example of the claim: name \<^verbatim>\<open>fcos\<close>, id \<^verbatim>\<open>35.20220101.0\<close>, platform \<^verbatim>\<open>qemu\<close>,
  architecture \<^verbatim>\<open>x86_64\<close>.
\<close>

theorem image_name_base_composition_witness:
  "self_image_name ex_build = None \<and> loaded ex_build
   \<and> self_build_json ex_build ''meta'' = JObj ex_old_items \<and> self_platform ex_build = Some ''qemu''
   \<and> fst (build_name ex_env (ex_build, ex_world)) = Inr ''fcos''
   \<and> fst (build_id ex_env (ex_build, ex_world)) = Inr (JStr ''35.20220101.0'')
   \<and> fst (basearch ex_env (ex_build, ex_world)) = Inr (JStr ''x86_64'')
   \<and> fst (image_name_base ex_env (ex_build, ex_world)) = Inr ''fcos-35.20220101.0-qemu.x86_64''
   \<and> image_name_base ex_env (ex_build_named, ex_world) = (Inr ''fcos.qcow2'', (ex_build_named, ex_world))"
proof -
  note acc = ex_accessors [OF ex_loaded(1) ex_meta_doc ex_named_meta(3), of ex_world]
  from image_name_base_composition [of ex_build ex_old_items "''qemu''" ex_env ex_world]
  obtain name bid arch where
    "fst (build_name ex_env (ex_build, ex_world)) = Inr name"
    "fst (build_id ex_env (ex_build, ex_world)) = Inr bid"
    "fst (basearch ex_env (ex_build, ex_world)) = Inr arch"
    "fst (image_name_base ex_env (ex_build, ex_world)) =
       Inr (name @ ''-'' @ py_str bid @ ''-'' @ ''qemu'' @ ''.'' @ py_str arch)"
    using ex_loaded(1) ex_meta_doc ex_named_meta by blast
  with acc have r: "fst (image_name_base ex_env (ex_build, ex_world)) = Inr ''fcos-35.20220101.0-qemu.x86_64''"
    by (simp add: py_str_def)
  from image_name_base_composition [of ex_build_named ex_old_items "''qemu''" ex_env ex_world]
  have "image_name_base ex_env (ex_build_named, ex_world) = (Inr ''fcos.qcow2'', (ex_build_named, ex_world))"
    by (simp add: ex_named)
  with r acc show ?thesis
    by (simp add: ex_loaded ex_meta_doc ex_named_meta)
qed

text \<open>
  The claim as stated, always, fails once an image name is set: with the same name, id,
  platform and architecture, the result is the image name.
\<close>

theorem image_name_base_counterexample:
  "fst (build_name ex_env (ex_build_named, ex_world)) = Inr ''fcos''
   \<and> fst (build_id ex_env (ex_build_named, ex_world)) = Inr (JStr ''35.20220101.0'')
   \<and> fst (platform (ex_build_named, ex_world)) = Inr ''qemu''
   \<and> fst (basearch ex_env (ex_build_named, ex_world)) = Inr (JStr ''x86_64'')
   \<and> fst (image_name_base ex_env (ex_build_named, ex_world)) = Inr ''fcos.qcow2''
   \<and> ''fcos.qcow2'' \<noteq> ''fcos-35.20220101.0-qemu.x86_64''"
  using ex_accessors [OF ex_loaded(2) ex_named_meta(1) ex_named_meta(2), of ex_world]
  by (simp add: image_name_base_def ex_named)

section \<open>Teardown\<close>





subsection \<open>Claim C9\<close>



end
